theory Spec2Isabelle
  imports Main "HOL-Library.Char_ord" "HOL-Library.List_Lexorder" "HOL-Library.Product_Lexorder"
    "HOL-Library.Multiset"
begin

section \<open>Values, question records and the Question Store\<close>

text \<open>
  The values that flow through filter.js as option values, selected values and query
  arguments are JavaScript strings and numbers: the index keys of the store.
\<close>

datatype val = Str string | Num int

text \<open>
  A question record as database.js indexes it (part_000, the schema of \<open>db.version(1)\<close>):
  the primary key \<open>id\<close>, six scalar string fields, the exam year (an integer in the
  data model) and the multi-valued \<open>tags\<close>. A scalar field that is missing or null is
  \<open>None\<close>: IndexedDB leaves such a record out of that field's index.
\<close>

record question =
  qid :: string
  subject :: "string option"
  topic :: "string option"
  subTopic :: "string option"
  difficulty :: "string option"
  questionType :: "string option"
  examName :: "string option"
  examYear :: "int option"
  tags :: "string list"

datatype filterKey =
  Subject | Topic | SubTopic | Difficulty | QuestionType | ExamName | ExamYear | Tags

text \<open>
  Modelled from the spec: \<open>config.filterKeys\<close> of state.js, which is not among the
  sources. The spec lists the eight filter keys in this order.
\<close>

definition filterKeys :: "filterKey list" where
  "filterKeys = [Subject, Topic, SubTopic, Difficulty, QuestionType, ExamName, ExamYear, Tags]"

text \<open>\<open>getQuestionValuePath\<close>: the key path of the index behind each filter key.\<close>

fun getQuestionValuePath :: "filterKey \<Rightarrow> string" where
  "getQuestionValuePath Subject = ''classification.subject''"
| "getQuestionValuePath Topic = ''classification.topic''"
| "getQuestionValuePath SubTopic = ''classification.subTopic''"
| "getQuestionValuePath Difficulty = ''properties.difficulty''"
| "getQuestionValuePath QuestionType = ''properties.questionType''"
| "getQuestionValuePath ExamName = ''sourceInfo.examName''"
| "getQuestionValuePath ExamYear = ''sourceInfo.examYear''"
| "getQuestionValuePath Tags = ''tags''"

subsection \<open>The store: Dexie over IndexedDB\<close>

text \<open>
  \<open>db.questions\<close> is a Dexie table. \<open>keysAt path q\<close> is the list of index keys of record
  \<open>q\<close> under the key path \<open>path\<close>: one key for a scalar field that is present, every tag
  for the multi-entry index \<open>tags\<close>, none for a missing field.
\<close>

definition strKey :: "string option \<Rightarrow> val list" where
  "strKey x = (case x of None \<Rightarrow> [] | Some s \<Rightarrow> [Str s])"

definition numKey :: "int option \<Rightarrow> val list" where
  "numKey x = (case x of None \<Rightarrow> [] | Some n \<Rightarrow> [Num n])"

definition keysAt :: "string \<Rightarrow> question \<Rightarrow> val list" where
  "keysAt path q =
     (if path = ''classification.subject'' then strKey (subject q)
      else if path = ''classification.topic'' then strKey (topic q)
      else if path = ''classification.subTopic'' then strKey (subTopic q)
      else if path = ''properties.difficulty'' then strKey (difficulty q)
      else if path = ''properties.questionType'' then strKey (questionType q)
      else if path = ''sourceInfo.examName'' then strKey (examName q)
      else if path = ''sourceInfo.examYear'' then numKey (examYear q)
      else if path = ''tags'' then map Str (tags q)
      else [])"

text \<open>
  IndexedDB orders keys with every number before every string, numbers by value and
  strings by their code units.
\<close>

fun idbKey :: "val \<Rightarrow> nat \<times> int \<times> string" where
  "idbKey (Num n) = (0, n, [])"
| "idbKey (Str s) = (1, 0, s)"

text \<open>
  The entries of an index, in the order a cursor visits them: by index key, entries with
  the same key by primary key. \<open>None\<close> stands for the primary key \<open>id\<close>, \<open>Some path\<close> for
  the index on \<open>path\<close>.
\<close>

definition index_entries :: "string option \<Rightarrow> question list \<Rightarrow> (val \<times> question) list" where
  "index_entries ix tbl =
     sort_key (\<lambda>e. (idbKey (fst e), qid (snd e)))
       (case ix of
          None \<Rightarrow> map (\<lambda>q. (Str (qid q), q)) tbl
        | Some path \<Rightarrow> concat (map (\<lambda>q. map (\<lambda>k. (k, q)) (remdups (keysAt path q))) tbl))"

text \<open>
  A Dexie \<open>Collection\<close>: the table and the index it runs on, the key set of \<open>anyOf\<close> if
  there is one, and the filter that \<open>and\<close> has added. \<open>toCollection()\<close> runs on the
  primary key, \<open>orderBy(path)\<close> and \<open>where(path)\<close> on the index of \<open>path\<close>; the methods
  \<open>where\<close> and \<open>orderBy\<close> belong to the table.
\<close>

record collection =
  coll_table :: "question list"
  coll_index :: "string option"
  coll_anyOf :: "val list option"
  coll_filter :: "question \<Rightarrow> bool"

datatype where_clause = WhereClause "question list" string

definition toCollection :: "question list \<Rightarrow> collection" where
  "toCollection tbl =
     \<lparr>coll_table = tbl, coll_index = None, coll_anyOf = None, coll_filter = (\<lambda>q. True)\<rparr>"

definition orderBy :: "question list \<Rightarrow> string \<Rightarrow> collection" where
  "orderBy tbl path =
     \<lparr>coll_table = tbl, coll_index = Some path, coll_anyOf = None, coll_filter = (\<lambda>q. True)\<rparr>"

definition table_where :: "question list \<Rightarrow> string \<Rightarrow> where_clause" where
  "table_where tbl path = WhereClause tbl path"

fun anyOf :: "where_clause \<Rightarrow> val list \<Rightarrow> collection" where
  "anyOf (WhereClause tbl path) vals =
     \<lparr>coll_table = tbl, coll_index = Some path, coll_anyOf = Some vals, coll_filter = (\<lambda>q. True)\<rparr>"

definition and_filter :: "(question \<Rightarrow> bool) \<Rightarrow> collection \<Rightarrow> collection" where
  "and_filter p c = c\<lparr>coll_filter := (\<lambda>q. coll_filter c q \<and> p q)\<rparr>"

definition clone :: "collection \<Rightarrow> collection" where
  "clone c = c"

text \<open>An index entry is delivered when its key is in the key set and its record passes the filter.\<close>

definition delivers :: "collection \<Rightarrow> val \<times> question \<Rightarrow> bool" where
  "delivers c e =
     ((case coll_anyOf c of None \<Rightarrow> True | Some vals \<Rightarrow> fst e \<in> set vals) \<and> coll_filter c (snd e))"

definition toArray :: "collection \<Rightarrow> question list" where
  "toArray c = map snd (filter (delivers c) (index_entries (coll_index c) (coll_table c)))"

text \<open>
  \<open>Collection.uniqueKeys(cb)\<close> lists the keys of the index the collection runs on. Its
  cursor runs in the direction \<open>nextunique\<close>: of the entries with one key it visits the
  first only, the one of the record with the lowest primary key, and the filter of \<open>and\<close>
  is put to that record. The argument is a callback for the resulting array; a string
  passed there is ignored.
\<close>

function nextunique :: "(val \<times> question) list \<Rightarrow> (val \<times> question) list" where
  "nextunique [] = []"
| "nextunique (e # es) = e # nextunique (filter (\<lambda>e'. fst e' \<noteq> fst e) es)"
  by pat_completeness auto
termination
  by (relation "measure length") (auto simp: less_Suc_eq_le)

definition uniqueKeys :: "collection \<Rightarrow> val list" where
  "uniqueKeys c =
     map fst (filter (delivers c) (nextunique (index_entries (coll_index c) (coll_table c))))"

definition uniqueKeys_cb :: "string \<Rightarrow> collection \<Rightarrow> val list" where
  "uniqueKeys_cb cb c = uniqueKeys c"

text \<open>
  A \<open>Collection\<close> has no method \<open>where\<close>: \<open>query.where\<close> is \<open>undefined\<close> there, and the
  call \<open>query.where(path)\<close> throws a \<open>TypeError\<close> before anything that follows it in the
  expression is evaluated.
\<close>

datatype js_error = TypeError

definition collection_where :: "collection \<Rightarrow> string \<Rightarrow> js_error" where
  "collection_where c path = TypeError"

subsection \<open>String conversion\<close>

text \<open>
  \<open>String(n)\<close> of an integer is its decimal numeral (JavaScript switches to exponent
  notation only from \<open>10^21\<close> on, far beyond an exam year).
\<close>

definition digit_char :: "nat \<Rightarrow> char" where
  "digit_char d = char_of (48 + d)"

function show_nat :: "nat \<Rightarrow> string" where
  "show_nat n = (if n < 10 then [digit_char n] else show_nat (n div 10) @ [digit_char (n mod 10)])"
  by pat_completeness auto
termination
  by (relation "measure id") auto

declare show_nat.simps [simp del]

fun String_js :: "val \<Rightarrow> string" where
  "String_js (Str s) = s"
| "String_js (Num n) = (if n < 0 then CHR ''-'' # show_nat (nat (- n)) else show_nat (nat n))"

text \<open>\<open>Boolean(v)\<close>: the empty string and zero are falsy.\<close>

fun Boolean :: "val \<Rightarrow> bool" where
  "Boolean (Str s) = (s \<noteq> [])"
| "Boolean (Num n) = (n \<noteq> 0)"

section \<open>Session state and the rendered controls\<close>

type_synonym filters = "filterKey \<Rightarrow> val list"

text \<open>
  What filter.js reads and writes: \<open>state.selectedFilters\<close> (one array of selected values
  for each key), \<open>state.filteredQuestionsMasterList\<close>, and the part of the page it
  renders. A multi-select list holds one \<open>label.multiselect-item\<close> for each option: the
  option value its handler closes over (the checkbox's \<open>value\<close> attribute is its string
  form), the checkbox's \<open>checked\<close> and \<open>disabled\<close> properties and what its count span
  shows. A segmented control holds one button for each option (\<open>dataset.value\<close> is the
  string form of the option); a button element has a \<open>disabled\<close> property too, false when
  the element is created.

  A count span shows the value of \<open>counts[value] || 0\<close>: a number, or, when \<open>value\<close> names
  a property that the object \<open>counts\<close> inherits from \<open>Object.prototype\<close>, that property.
\<close>

datatype shown = Count nat | Inherited

record item =
  item_opt :: val
  item_checked :: bool
  item_disabled :: bool
  item_count :: "shown option"

record btn =
  btn_opt :: val
  btn_count :: "shown option"
  btn_active :: bool
  btn_disabled :: bool

record filterElement =
  toggleBtn_disabled :: bool
  list_el :: "item list option"
  segmentedControl :: "btn list option"

datatype event = Swal_warning string string | StartQuiz

record app_state =
  selectedFilters :: filters
  filteredQuestionsMasterList :: "question list"
  filterElements :: "filterKey \<Rightarrow> filterElement"
  questionCount :: nat
  startQuizBtn_disabled :: bool
  activeFiltersSummaryBar :: "(filterKey \<times> val) list"
  summaryBar_shown :: bool
  events :: "event list"

text \<open>
  \<open>events\<close> is the trace of what the module shows or signals outside the filter panel:
  a \<open>Swal.fire\<close> warning (title, text) and the call of \<open>appCallbacks.startQuiz\<close>.

  The functions of filter.js that query the store are \<open>async\<close>. One that can throw
  returns, besides its result, the state it leaves behind: what it wrote before the throw
  stays written. An \<open>await\<close> of a rejected promise throws in the caller.
\<close>

definition set_element :: "filterKey \<Rightarrow> (filterElement \<Rightarrow> filterElement) \<Rightarrow> app_state \<Rightarrow> app_state" where
  "set_element k f st = st\<lparr>filterElements := (filterElements st)(k := f (filterElements st k))\<rparr>"

definition populateMultiSelect :: "filterKey \<Rightarrow> val list \<Rightarrow> app_state \<Rightarrow> app_state" where
  "populateMultiSelect k options st =
     (case list_el (filterElements st k) of
        None \<Rightarrow> st
      | Some _ \<Rightarrow>
          (let selectedValues = selectedFilters st k
           in set_element k (\<lambda>e. e\<lparr>list_el := Some (map (\<lambda>opt.
                \<lparr>item_opt = opt, item_checked = (opt \<in> set selectedValues),
                 item_disabled = False, item_count = None\<rparr>) options)\<rparr>) st))"

definition populateSegmentedControl :: "filterKey \<Rightarrow> val list \<Rightarrow> app_state \<Rightarrow> app_state" where
  "populateSegmentedControl k options st =
     (case segmentedControl (filterElements st k) of
        None \<Rightarrow> st
      | Some _ \<Rightarrow>
          set_element k (\<lambda>e. e\<lparr>segmentedControl := Some (map (\<lambda>opt.
            \<lparr>btn_opt = opt, btn_count = None, btn_active = False, btn_disabled = False\<rparr>) options)\<rparr>) st)"

definition populateFilterControls :: "question list \<Rightarrow> app_state \<Rightarrow> app_state" where
  "populateFilterControls db st =
     (let unique_subject = uniqueKeys (orderBy db ''classification.subject'');
          unique_difficulty = uniqueKeys (orderBy db ''properties.difficulty'');
          unique_questionType = uniqueKeys (orderBy db ''properties.questionType'');
          unique_examName = uniqueKeys (orderBy db ''sourceInfo.examName'');
          unique_examYear = rev (uniqueKeys (orderBy db ''sourceInfo.examYear''));
          unique_tags = uniqueKeys (orderBy db ''tags'');
          st = populateMultiSelect Subject unique_subject st;
          st = set_element Topic (\<lambda>e. e\<lparr>toggleBtn_disabled := True\<rparr>) st;
          st = set_element SubTopic (\<lambda>e. e\<lparr>toggleBtn_disabled := True\<rparr>) st;
          st = populateSegmentedControl Difficulty unique_difficulty st;
          st = populateSegmentedControl QuestionType unique_questionType st;
          st = populateMultiSelect ExamName unique_examName st;
          st = populateMultiSelect ExamYear unique_examYear st;
          st = populateMultiSelect Tags unique_tags st
      in st)"

subsection \<open>Dependent options\<close>

text \<open>
  \<open>Array.prototype.sort\<close> without a comparator orders by the string form of the elements.
  The topic and sub-topic elements of the page are multi-select lists: the function writes
  their \<open>toggleBtn\<close> and \<open>list\<close> without a check. Both queries are made on the table:
  \<open>where('classification.subject').anyOf(selectedSubjects)\<close> is a collection on the
  subject index, and \<open>uniqueKeys\<close>, handed a key path where it takes a callback, lists
  keys of that index.
\<close>

definition js_sort :: "val list \<Rightarrow> val list" where
  "js_sort xs = sort_key String_js xs"

definition topic_includes :: "val list \<Rightarrow> question \<Rightarrow> bool" where
  "topic_includes selectedTopics q =
     (case topic q of None \<Rightarrow> False | Some t \<Rightarrow> Str t \<in> set selectedTopics)"

definition updateDependentFilters :: "question list \<Rightarrow> app_state \<Rightarrow> app_state" where
  "updateDependentFilters db st =
     (let selectedSubjects = selectedFilters st Subject;
          selectedTopics = selectedFilters st Topic;
          st = (if length selectedSubjects = 0
                then set_element Topic (\<lambda>e. e\<lparr>toggleBtn_disabled := True, list_el := Some []\<rparr>) st
                else
                  (let st = set_element Topic (\<lambda>e. e\<lparr>toggleBtn_disabled := False\<rparr>) st;
                       relevantTopics = uniqueKeys_cb ''classification.topic''
                         (anyOf (table_where db ''classification.subject'') selectedSubjects)
                   in populateMultiSelect Topic (js_sort relevantTopics) st));
          st = (if length selectedTopics = 0
                then set_element SubTopic (\<lambda>e. e\<lparr>toggleBtn_disabled := True, list_el := Some []\<rparr>) st
                else
                  (let st = set_element SubTopic (\<lambda>e. e\<lparr>toggleBtn_disabled := False\<rparr>) st;
                       relevantSubTopics = uniqueKeys_cb ''classification.subTopic''
                         (and_filter (topic_includes selectedTopics)
                            (anyOf (table_where db ''classification.subject'') selectedSubjects))
                   in populateMultiSelect SubTopic (js_sort relevantSubTopics) st))
      in st)"

subsection \<open>The master list\<close>

definition updateQuestionCount :: "app_state \<Rightarrow> app_state" where
  "updateQuestionCount st =
     (let count = length (filteredQuestionsMasterList st)
      in st\<lparr>questionCount := count, startQuizBtn_disabled := (count = 0)\<rparr>)"

text \<open>
  \<open>applyFilters\<close> starts from \<open>db.questions.toCollection()\<close>, a \<open>Collection\<close>, and calls
  \<open>query.where(...)\<close> on it for the first key whose selection is not empty: the call
  throws, nothing has been written, and neither \<open>anyOf\<close> nor its argument (for the exam
  year, the selection read through \<open>parseInt\<close>) is evaluated. Each of the eight \<open>if\<close>
  statements throws when it is taken, so the next one is reached only when it is not. With
  every selection empty the whole table is read, in the order of the primary key.
\<close>

definition applyFilters :: "question list \<Rightarrow> app_state \<Rightarrow> (js_error + question list) \<times> app_state" where
  "applyFilters db st =
     (let filters = selectedFilters st;
          query = toCollection db
      in if length (filters Subject) > 0
         then (Inl (collection_where query ''classification.subject''), st)
         else if length (filters Topic) > 0
         then (Inl (collection_where query ''classification.topic''), st)
         else if length (filters SubTopic) > 0
         then (Inl (collection_where query ''classification.subTopic''), st)
         else if length (filters Difficulty) > 0
         then (Inl (collection_where query ''properties.difficulty''), st)
         else if length (filters QuestionType) > 0
         then (Inl (collection_where query ''properties.questionType''), st)
         else if length (filters ExamName) > 0
         then (Inl (collection_where query ''sourceInfo.examName''), st)
         else if length (filters ExamYear) > 0
         then (Inl (collection_where query ''sourceInfo.examYear''), st)
         else if length (filters Tags) > 0
         then (Inl (collection_where query ''tags''), st)
         else
           (let filtered = toArray query;
                st = st\<lparr>filteredQuestionsMasterList := filtered\<rparr>;
                st = updateQuestionCount st
            in (Inr filtered, st)))"

subsection \<open>Option counts\<close>

text \<open>
  The inner loop of \<open>updateAllFilterCountsAndAvailability\<close>: the base query for
  \<open>filterKey\<close>, a \<open>Collection\<close> again, on which \<open>where\<close> is called for the first other key
  with a selection. (The constant \<open>values\<close>, computed just before the call, is the
  argument of the \<open>anyOf\<close> that is never reached; it is left out, and so is
  \<open>valueForQuery\<close> below.)
\<close>

fun baseQuery_loop ::
  "filters \<Rightarrow> filterKey \<Rightarrow> filterKey list \<Rightarrow> collection \<Rightarrow> js_error + collection" where
  "baseQuery_loop fs filterKey [] baseQuery = Inr baseQuery"
| "baseQuery_loop fs filterKey (otherKey # rest) baseQuery =
     (if otherKey = filterKey then baseQuery_loop fs filterKey rest baseQuery
      else
        (let selected = fs otherKey
         in if length selected > 0
            then (let valuePath = getQuestionValuePath otherKey
                  in Inl (collection_where baseQuery valuePath))
            else baseQuery_loop fs filterKey rest baseQuery))"

text \<open>\<open>Array.prototype.map\<close> with a callback that can throw: the first throw ends it.\<close>

fun map_throw :: "('a \<Rightarrow> js_error + 'b) \<Rightarrow> 'a list \<Rightarrow> js_error + 'b list" where
  "map_throw f [] = Inr []"
| "map_throw f (x # xs) =
     (case f x of
        Inl e \<Rightarrow> Inl e
      | Inr y \<Rightarrow> (case map_throw f xs of Inl e \<Rightarrow> Inl e | Inr ys \<Rightarrow> Inr (y # ys)))"

text \<open>
  The table \<open>counts\<close>: \<open>counts[option] = countsArray[index]\<close> for each enumerated option
  in turn, a later assignment replacing an earlier one. The keys of a JavaScript object
  are strings: the option is converted. An assignment to \<open>__proto__\<close> creates no property.
\<close>

definition countsTable :: "val list \<Rightarrow> nat list \<Rightarrow> (string \<rightharpoonup> nat)" where
  "countsTable opts countsArray =
     foldl (\<lambda>counts (option, c).
              if String_js option = ''__proto__'' then counts else counts(String_js option \<mapsto> c))
       Map.empty (zip opts countsArray)"

text \<open>
  One round of the outer loop, up to the table of counts. The options are enumerated by
  \<open>baseQuery.clone().uniqueKeys(valuePath)\<close>: the keys of the index that \<open>baseQuery\<close> runs
  on, which is the primary key. The count of an option is asked with
  \<open>baseQuery.clone().where(valuePath)\<close>, \<open>where\<close> on a \<open>Collection\<close> once more.
\<close>

definition countsFor :: "question list \<Rightarrow> filters \<Rightarrow> filterKey \<Rightarrow> js_error + (string \<rightharpoonup> nat)" where
  "countsFor db fs filterKey =
     (case baseQuery_loop fs filterKey filterKeys (toCollection db) of
        Inl e \<Rightarrow> Inl e
      | Inr baseQuery \<Rightarrow>
          (let valuePath = getQuestionValuePath filterKey;
               allOptionsForThisKey = filter Boolean (uniqueKeys_cb valuePath (clone baseQuery))
           in case map_throw (\<lambda>option. Inl (collection_where (clone baseQuery) valuePath))
                     allOptionsForThisKey of
                Inl e \<Rightarrow> Inl e
              | Inr countsArray \<Rightarrow> Inr (countsTable allOptionsForThisKey countsArray)))"

text \<open>
  \<open>counts[value] || 0\<close>. \<open>counts\<close> is an object literal: a name it has no own property
  for is looked up in \<open>Object.prototype\<close>, whose properties are functions, and
  \<open>__proto__\<close> reads the prototype itself; all of these are truthy.
\<close>

definition object_prototype_names :: "string list" where
  "object_prototype_names =
     [''constructor'', ''__defineGetter__'', ''__defineSetter__'', ''hasOwnProperty'',
      ''__lookupGetter__'', ''__lookupSetter__'', ''isPrototypeOf'', ''propertyIsEnumerable'',
      ''toString'', ''valueOf'', ''__proto__'', ''toLocaleString'']"

definition count_or_0 :: "(string \<rightharpoonup> nat) \<Rightarrow> string \<Rightarrow> shown" where
  "count_or_0 counts v =
     (case counts v of
        Some c \<Rightarrow> Count c
      | None \<Rightarrow> if v \<in> set object_prototype_names then Inherited else Count 0)"

definition updateFilterUI :: "filterKey \<Rightarrow> (string \<rightharpoonup> nat) \<Rightarrow> app_state \<Rightarrow> app_state" where
  "updateFilterUI k counts st =
     (case list_el (filterElements st k) of
        Some items \<Rightarrow>
          set_element k (\<lambda>e. e\<lparr>list_el := Some (map (\<lambda>label.
            (let v = String_js (item_opt label);
                 count = count_or_0 counts v;
                 isDisabled = (count = Count 0 \<and> \<not> item_checked label)
             in label\<lparr>item_count := Some count, item_disabled := isDisabled\<rparr>)) items)\<rparr>) st
      | None \<Rightarrow>
          (case segmentedControl (filterElements st k) of
             Some btns \<Rightarrow>
               set_element k (\<lambda>e. e\<lparr>segmentedControl := Some (map (\<lambda>b.
                 (let v = String_js (btn_opt b);
                      count = count_or_0 counts v
                  in b\<lparr>btn_count := Some count,
                       btn_active := (Str v \<in> set (selectedFilters st k))\<rparr>)) btns)\<rparr>) st
           | None \<Rightarrow> st))"

fun updateAll_loop :: "question list \<Rightarrow> filterKey list \<Rightarrow> app_state \<Rightarrow> js_error option \<times> app_state" where
  "updateAll_loop db [] st = (None, st)"
| "updateAll_loop db (filterKey # rest) st =
     (case countsFor db (selectedFilters st) filterKey of
        Inl e \<Rightarrow> (Some e, st)
      | Inr counts \<Rightarrow> updateAll_loop db rest (updateFilterUI filterKey counts st))"

definition updateAllFilterCountsAndAvailability ::
  "question list \<Rightarrow> app_state \<Rightarrow> js_error option \<times> app_state" where
  "updateAllFilterCountsAndAvailability db st = updateAll_loop db filterKeys st"

definition updateActiveFiltersSummaryBar :: "app_state \<Rightarrow> app_state" where
  "updateActiveFiltersSummaryBar st =
     (let chips = concat (map (\<lambda>k. map (\<lambda>v. (k, v)) (selectedFilters st k)) filterKeys);
          totalSelected = length chips
      in st\<lparr>activeFiltersSummaryBar := chips, summaryBar_shown := (totalSelected > 0)\<rparr>)"

definition onFilterStateChange :: "question list \<Rightarrow> app_state \<Rightarrow> js_error option \<times> app_state" where
  "onFilterStateChange db st =
     (let st = updateDependentFilters db st
      in case applyFilters db st of
           (Inl e, st) \<Rightarrow> (Some e, st)
         | (Inr filtered, st) \<Rightarrow>
             (case updateAllFilterCountsAndAvailability db st of
                (Some e, st) \<Rightarrow> (Some e, st)
              | (None, st) \<Rightarrow> (None, updateActiveFiltersSummaryBar st)))"

section \<open>Filter State operations\<close>

text \<open>
  \<open>handleSelectionChange\<close>: \<open>indexOf\<close> and \<open>splice(index, 1)\<close> take the first occurrence
  of the value out of the array, \<open>push\<close> appends it. The Filter State is written before
  \<open>onFilterStateChange\<close> is awaited.
\<close>

definition handleSelectionChange ::
  "filterKey \<Rightarrow> val \<Rightarrow> question list \<Rightarrow> app_state \<Rightarrow> js_error option \<times> app_state" where
  "handleSelectionChange filterKey v db st =
     (let selectedValues = selectedFilters st filterKey;
          selectedValues = (if v \<in> set selectedValues then remove1 v selectedValues
                            else selectedValues @ [v]);
          fs = (selectedFilters st)(filterKey := selectedValues);
          fs = (if filterKey = Subject then fs(Topic := [], SubTopic := [])
                else if filterKey = Topic then fs(SubTopic := [])
                else fs)
      in onFilterStateChange db (st\<lparr>selectedFilters := fs\<rparr>))"

definition uncheck_all :: "filterElement \<Rightarrow> filterElement" where
  "uncheck_all e =
     (case list_el e of
        None \<Rightarrow> e
      | Some items \<Rightarrow> e\<lparr>list_el := Some (map (\<lambda>cb. cb\<lparr>item_checked := False\<rparr>) items)\<rparr>)"

definition resetFilters :: "question list \<Rightarrow> app_state \<Rightarrow> js_error option \<times> app_state" where
  "resetFilters db st =
     (let st = st\<lparr>selectedFilters := (\<lambda>k. [])\<rparr>;
          st = foldl (\<lambda>st k. set_element k uncheck_all st) st filterKeys
      in onFilterStateChange db st)"

definition startFilteredQuiz :: "app_state \<Rightarrow> app_state" where
  "startFilteredQuiz st =
     (if length (filteredQuestionsMasterList st) = 0
      then st\<lparr>events := events st @
             [Swal_warning ''No Questions Found''
                ''Please adjust your filters to select at least one question.'']\<rparr>
      else st\<lparr>events := events st @ [StartQuiz]\<rparr>)"

subsection \<open>Quick start\<close>

text \<open>
  Modelled from the spec: \<open>shuffleArray\<close> of utils.js, which is not among the sources. The
  spec says only that the list is shuffled randomly (in place). The model is the usual
  exchange shuffle, its random draws given by \<open>rnd\<close>: position \<open>i\<close>, from the last one
  down, is exchanged with position \<open>rnd i mod (i + 1)\<close>.
\<close>

fun shuffle_loop :: "(nat \<Rightarrow> nat) \<Rightarrow> nat \<Rightarrow> 'a list \<Rightarrow> 'a list" where
  "shuffle_loop rnd 0 xs = xs"
| "shuffle_loop rnd (Suc i) xs =
     (let j = rnd (Suc i) mod (Suc i + 1)
      in shuffle_loop rnd i (xs[Suc i := xs ! j, j := xs ! Suc i]))"

definition shuffleArray :: "(nat \<Rightarrow> nat) \<Rightarrow> 'a list \<Rightarrow> 'a list" where
  "shuffleArray rnd xs = shuffle_loop rnd (length xs - 1) xs"

definition apply_preset :: "string \<Rightarrow> app_state \<Rightarrow> app_state" where
  "apply_preset preset st =
     (if preset = ''quick_25_easy''
      then st\<lparr>selectedFilters := (selectedFilters st)(Difficulty := [Str ''Easy''])\<rparr>
      else if preset = ''quick_25_moderate''
      then st\<lparr>selectedFilters := (selectedFilters st)(Difficulty := [Str ''Medium''])\<rparr>
      else if preset = ''quick_25_hard''
      then st\<lparr>selectedFilters := (selectedFilters st)(Difficulty := [Str ''Hard''])\<rparr>
      else st)"

definition quickStart_warning :: event where
  "quickStart_warning = Swal_warning ''No Questions Found''
     ''This quick start preset yielded no questions. Please try another or use the custom filters.''"

definition handleQuickStart ::
  "(nat \<Rightarrow> nat) \<Rightarrow> string \<Rightarrow> question list \<Rightarrow> app_state \<Rightarrow> js_error option \<times> app_state" where
  "handleQuickStart rnd preset db st =
     (case resetFilters db st of
        (Some e, st) \<Rightarrow> (Some e, st)
      | (None, st) \<Rightarrow>
          (let st = apply_preset preset st
           in case applyFilters db st of
                (Inl e, st) \<Rightarrow> (Some e, st)
              | (Inr questions, st) \<Rightarrow>
                  (let questions = shuffleArray rnd questions;
                       st = st\<lparr>filteredQuestionsMasterList := take 25 questions\<rparr>;
                       st = updateQuestionCount st
                   in if length (filteredQuestionsMasterList st) = 0
                      then resetFilters db (st\<lparr>events := events st @ [quickStart_warning]\<rparr>)
                      else (None, startFilteredQuiz st))))"

section \<open>The page: start-up and user events\<close>

text \<open>
  Modelled from the spec: the initial \<open>state\<close> of state.js and the page elements of dom.js,
  which are not among the sources. The Filter State starts all-empty; subject, topic,
  sub-topic, exam name, exam year and tags are multi-select lists, difficulty and question
  type are segmented controls, as \<open>populateFilterControls\<close> fills them.
\<close>

definition multiSelectElement :: filterElement where
  "multiSelectElement = \<lparr>toggleBtn_disabled = False, list_el = Some [], segmentedControl = None\<rparr>"

definition segmentedElement :: filterElement where
  "segmentedElement = \<lparr>toggleBtn_disabled = False, list_el = None, segmentedControl = Some []\<rparr>"

definition initial_state :: app_state where
  "initial_state =
     \<lparr>selectedFilters = (\<lambda>k. []),
      filteredQuestionsMasterList = [],
      filterElements = (\<lambda>k. if k = Difficulty \<or> k = QuestionType then segmentedElement
                             else multiSelectElement),
      questionCount = 0,
      startQuizBtn_disabled = False,
      activeFiltersSummaryBar = [],
      summaryBar_shown = False,
      events = []\<rparr>"

text \<open>
  \<open>initializeFilterDataSource\<close>, after \<open>initDatabase\<close> has filled the store \<open>db\<close>.
  \<open>initFilterModule\<close> catches what it throws and returns: the page stays as it was left.
\<close>

definition initializeFilterDataSource :: "question list \<Rightarrow> app_state \<Rightarrow> js_error option \<times> app_state" where
  "initializeFilterDataSource db st = onFilterStateChange db (populateFilterControls db st)"

text \<open>
  The handlers that \<open>bindFilterEventListeners\<close>, \<open>populateMultiSelect\<close>,
  \<open>populateSegmentedControl\<close> and \<open>updateActiveFiltersSummaryBar\<close> install are the only
  callers of the operations above. A checkbox fires \<open>onchange\<close> when the user clicks it
  while it is enabled, its \<open>checked\<close> property already flipped; a segmented button and the
  close button of a chip fire \<open>onclick\<close>; each calls \<open>handleSelectionChange\<close> with the
  key and value it was created with. A handler does not await the promise of the
  operation it calls: when that is rejected, the page stays as the operation left it.
  In \<open>reachable\<close> every operation has settled before the next event is fired.
\<close>

datatype ui_event =
    ClickCheckbox filterKey nat
  | ClickSegment filterKey nat
  | CloseChip nat
  | ClickReset
  | ClickQuickStart string
  | ClickStartQuiz

fun enabled :: "app_state \<Rightarrow> ui_event \<Rightarrow> bool" where
  "enabled st (ClickCheckbox k i) =
     (case list_el (filterElements st k) of
        None \<Rightarrow> False
      | Some items \<Rightarrow> i < length items \<and> \<not> item_disabled (items ! i))"
| "enabled st (ClickSegment k i) =
     (case segmentedControl (filterElements st k) of
        None \<Rightarrow> False
      | Some btns \<Rightarrow> i < length btns \<and> \<not> btn_disabled (btns ! i))"
| "enabled st (CloseChip i) = (i < length (activeFiltersSummaryBar st))"
| "enabled st ClickReset = True"
| "enabled st (ClickQuickStart preset) = True"
| "enabled st ClickStartQuiz = (\<not> startQuizBtn_disabled st)"

definition flip_checked :: "nat \<Rightarrow> filterElement \<Rightarrow> filterElement" where
  "flip_checked i e =
     (case list_el e of
        None \<Rightarrow> e
      | Some items \<Rightarrow>
          e\<lparr>list_el := Some (items[i := (items ! i)\<lparr>item_checked := \<not> item_checked (items ! i)\<rparr>])\<rparr>)"

fun fire :: "(nat \<Rightarrow> nat) \<Rightarrow> question list \<Rightarrow> ui_event \<Rightarrow> app_state \<Rightarrow> app_state" where
  "fire rnd db (ClickCheckbox k i) st =
     (case list_el (filterElements st k) of
        None \<Rightarrow> st
      | Some items \<Rightarrow>
          snd (handleSelectionChange k (item_opt (items ! i)) db (set_element k (flip_checked i) st)))"
| "fire rnd db (ClickSegment k i) st =
     (case segmentedControl (filterElements st k) of
        None \<Rightarrow> st
      | Some btns \<Rightarrow> snd (handleSelectionChange k (btn_opt (btns ! i)) db st))"
| "fire rnd db (CloseChip i) st =
     (let (k, v) = activeFiltersSummaryBar st ! i in snd (handleSelectionChange k v db st))"
| "fire rnd db ClickReset st = snd (resetFilters db st)"
| "fire rnd db (ClickQuickStart preset) st = snd (handleQuickStart rnd preset db st)"
| "fire rnd db ClickStartQuiz st = startFilteredQuiz st"

inductive reachable :: "question list \<Rightarrow> app_state \<Rightarrow> bool" for db :: "question list" where
  start: "reachable db (snd (initializeFilterDataSource db initial_state))"
| step: "reachable db st \<Longrightarrow> enabled st ev \<Longrightarrow> reachable db (fire rnd db ev st)"

section \<open>initDatabase\<close>

subsection \<open>\<open>parseInt\<close>\<close>

text \<open>
  \<open>parseInt(s, 10)\<close> skips leading white space, reads an optional sign and the longest
  run of decimal digits, and is \<open>NaN\<close> when there is no digit: the result \<open>None\<close> here.
\<close>

definition is_digit :: "char \<Rightarrow> bool" where
  "is_digit c = (48 \<le> (of_char c :: nat) \<and> (of_char c :: nat) \<le> 57)"

definition digit_val :: "char \<Rightarrow> nat" where
  "digit_val c = of_char c - 48"

definition is_space :: "char \<Rightarrow> bool" where
  "is_space c = ((of_char c :: nat) \<in> {9, 10, 11, 12, 13, 32})"

definition read_digits :: "string \<Rightarrow> nat" where
  "read_digits ds = foldl (\<lambda>acc c. 10 * acc + digit_val c) 0 ds"

definition parseInt_digits :: "int \<Rightarrow> string \<Rightarrow> val option" where
  "parseInt_digits sg s =
     (let ds = takeWhile is_digit s
      in if ds = [] then None else Some (Num (sg * int (read_digits ds))))"

definition parseInt_string :: "string \<Rightarrow> val option" where
  "parseInt_string s =
     (case dropWhile is_space s of
        [] \<Rightarrow> None
      | c # r \<Rightarrow>
          if c = CHR ''-'' then parseInt_digits (- 1) r
          else if c = CHR ''+'' then parseInt_digits 1 r
          else parseInt_digits 1 (c # r))"

subsection \<open>The function\<close>

text \<open>
  What \<open>initDatabase\<close> (part_000, database.js) reads and writes: the version marker in
  \<open>localStorage\<close> (\<open>None\<close> when \<open>getItem\<close> returns null) and the table \<open>db.questions\<close>.
  The network and the JSON parser are outside the program: the outcome of
  \<open>fetch('./questions.json')\<close> is an argument, a rejected promise or a response with its
  \<open>ok\<close> flag, status, \<open>Content-Length\<close> header and the chunks its body delivers, and so
  is the parser, \<open>None\<close> where \<open>JSON.parse\<close> throws. The result is the error thrown, if
  any, the storage afterwards and the trace of the store and network operations made.
\<close>

definition DB_VERSION :: string where
  "DB_VERSION = ''1.0''"

record storage =
  databaseVersion :: "string option"
  questions :: "question list"

record response =
  resp_ok :: bool
  resp_status :: nat
  resp_contentLength :: "string option"
  resp_hasBody :: bool
  resp_chunks :: "string list"

datatype fetch_outcome = Rejected | Resolved response

datatype init_error = FetchRejected | HttpError nat | SyntaxError | BulkError

datatype db_effect = Cleared | Fetch | BulkAdd "question list" | VersionSet

text \<open>
  \<open>bulkAdd\<close> outside a transaction: a record whose primary key is already in the table is
  refused, the others are added, and the promise is rejected when any was refused.
\<close>

definition bulkAdd :: "question list \<Rightarrow> question list \<Rightarrow> bool \<times> question list" where
  "bulkAdd table qs =
     foldl (\<lambda>(ok, t) q. if qid q \<in> qid ` set t then (False, t) else (ok, t @ [q])) (True, table) qs"

text \<open>The loop over \<open>reader.read()\<close>: it ends when the stream is done.\<close>

fun read_chunks :: "string list \<Rightarrow> string list \<times> nat \<Rightarrow> string list \<times> nat" where
  "read_chunks [] (chunks, loaded) = (chunks, loaded)"
| "read_chunks (v # rest) (chunks, loaded) = read_chunks rest (chunks @ [v], loaded + length v)"

definition response_text :: "response \<Rightarrow> string" where
  "response_text r =
     (let total = (case resp_contentLength r of None \<Rightarrow> None | Some l \<Rightarrow> parseInt_string l)
      in if total = None \<or> total = Some (Num 0) \<or> \<not> resp_hasBody r
         then concat (resp_chunks r)
         else (let (chunks, loaded) = read_chunks (resp_chunks r) ([], 0)
               in concat chunks))"

definition initDatabase ::
  "(string \<Rightarrow> question list option) \<Rightarrow> fetch_outcome \<Rightarrow> storage
     \<Rightarrow> init_error option \<times> storage \<times> db_effect list" where
  "initDatabase parse fetched s =
     (let currentVersion = databaseVersion s
      in if currentVersion = Some DB_VERSION \<and> length (questions s) > 0
         then (None, s, [])
         else
           (let (s, tr) = (if currentVersion \<noteq> Some DB_VERSION
                           then (s\<lparr>questions := []\<rparr>, [Cleared]) else (s, []))
            in case fetched of
                 Rejected \<Rightarrow> (Some FetchRejected, s, tr @ [Fetch])
               | Resolved r \<Rightarrow>
                   if \<not> resp_ok r then (Some (HttpError (resp_status r)), s, tr @ [Fetch])
                   else
                     (case parse (response_text r) of
                        None \<Rightarrow> (Some SyntaxError, s, tr @ [Fetch])
                      | Some allQuestions \<Rightarrow>
                          (let (ok, t) = bulkAdd (questions s) allQuestions
                           in if ok
                              then (None, s\<lparr>databaseVersion := Some DB_VERSION, questions := t\<rparr>,
                                    tr @ [Fetch, BulkAdd allQuestions, VersionSet])
                              else (Some BulkError, s\<lparr>questions := t\<rparr>,
                                    tr @ [Fetch, BulkAdd allQuestions])))))"

section \<open>What the specification promises\<close>

text \<open>
  The definitions of this section follow the words of the specification, not the code;
  the theorems below compare them with the functions above.

  A record's field value for a filter key: one value for a scalar field that is present,
  every tag for \<open>tags\<close>.
\<close>

fun fieldValues :: "filterKey \<Rightarrow> question \<Rightarrow> val list" where
  "fieldValues Subject q = strKey (subject q)"
| "fieldValues Topic q = strKey (topic q)"
| "fieldValues SubTopic q = strKey (subTopic q)"
| "fieldValues Difficulty q = strKey (difficulty q)"
| "fieldValues QuestionType q = strKey (questionType q)"
| "fieldValues ExamName q = strKey (examName q)"
| "fieldValues ExamYear q = numKey (examYear q)"
| "fieldValues Tags q = map Str (tags q)"

text \<open>
  The membership constraint of key \<open>k\<close>: a key with an empty selection constrains nothing,
  otherwise the record's field value must be in the selected set. A record satisfies a
  Filter State when it meets the constraint of every key.
\<close>

definition constraint :: "filters \<Rightarrow> filterKey \<Rightarrow> question \<Rightarrow> bool" where
  "constraint fs k q = (fs k = [] \<or> list_ex (\<lambda>v. v \<in> set (fs k)) (fieldValues k q))"

definition satisfies :: "filters \<Rightarrow> question \<Rightarrow> bool" where
  "satisfies fs q = list_all (\<lambda>k. constraint fs k q) filterKeys"

text \<open>The constraints of every key other than \<open>K\<close>, and the count the spec gives option \<open>v\<close> of \<open>K\<close>.\<close>

definition otherConstraints :: "filters \<Rightarrow> filterKey \<Rightarrow> question \<Rightarrow> bool" where
  "otherConstraints fs K q = list_all (\<lambda>k. k = K \<or> constraint fs k q) filterKeys"

definition matchCount :: "question list \<Rightarrow> filters \<Rightarrow> filterKey \<Rightarrow> val \<Rightarrow> nat" where
  "matchCount db fs K v =
     length (filter (\<lambda>q. otherConstraints fs K q \<and> v \<in> set (fieldValues K q)) db)"

definition reachableValues :: "question list \<Rightarrow> filters \<Rightarrow> filterKey \<Rightarrow> val set" where
  "reachableValues db fs K =
     set (filter Boolean (concat (map (fieldValues K) (filter (otherConstraints fs K) db))))"

text \<open>
  The options a control displays, each with the count and the availability it shows:
  (option value, count, checked or active, disabled).
\<close>

definition displayed :: "app_state \<Rightarrow> filterKey \<Rightarrow> (val \<times> shown option \<times> bool \<times> bool) list" where
  "displayed st K =
     (case list_el (filterElements st K) of
        Some items \<Rightarrow>
          map (\<lambda>i. (item_opt i, item_count i, item_checked i, item_disabled i)) items
      | None \<Rightarrow>
          (case segmentedControl (filterElements st K) of
             Some btns \<Rightarrow> map (\<lambda>b. (btn_opt b, btn_count b, btn_active b, btn_disabled b)) btns
           | None \<Rightarrow> []))"

definition displayedOptions :: "app_state \<Rightarrow> filterKey \<Rightarrow> val list" where
  "displayedOptions st K = map fst (displayed st K)"

definition isMultiSelect :: "app_state \<Rightarrow> filterKey \<Rightarrow> bool" where
  "isMultiSelect st K = (list_el (filterElements st K) \<noteq> None)"

text \<open>The topic values among the records whose subject is selected, and the sub-topic analogue.\<close>

definition topicsUnder :: "question list \<Rightarrow> val list \<Rightarrow> val set" where
  "topicsUnder db subjects =
     set (concat (map (fieldValues Topic)
       (filter (\<lambda>q. list_ex (\<lambda>v. v \<in> set subjects) (fieldValues Subject q)) db)))"

definition subTopicsUnder :: "question list \<Rightarrow> val list \<Rightarrow> val list \<Rightarrow> val set" where
  "subTopicsUnder db subjects topics =
     set (concat (map (fieldValues SubTopic)
       (filter (\<lambda>q. list_ex (\<lambda>v. v \<in> set subjects) (fieldValues Subject q) \<and>
                     list_ex (\<lambda>v. v \<in> set topics) (fieldValues Topic q)) db)))"

text \<open>
  The constraint of a quick-start preset: one fixed difficulty, or none for the mixed
  preset.
\<close>

definition preset_admits :: "string \<Rightarrow> question \<Rightarrow> bool" where
  "preset_admits preset q =
     (if preset = ''quick_25_easy'' then difficulty q = Some ''Easy''
      else if preset = ''quick_25_moderate'' then difficulty q = Some ''Medium''
      else if preset = ''quick_25_hard'' then difficulty q = Some ''Hard''
      else True)"

definition allEmpty :: "filters \<Rightarrow> bool" where
  "allEmpty fs = list_all (\<lambda>k. fs k = []) filterKeys"

definition hierarchy_ok :: "filters \<Rightarrow> bool" where
  "hierarchy_ok fs = ((fs Topic \<noteq> [] \<longrightarrow> fs Subject \<noteq> []) \<and> (fs SubTopic \<noteq> [] \<longrightarrow> fs Topic \<noteq> []))"

subsection \<open>Example data\<close>

text \<open>The store of the specification's example (section 8), and variants used below.\<close>

definition blank_question :: question where
  "blank_question =
     \<lparr>qid = [], subject = None, topic = None, subTopic = None, difficulty = None,
      questionType = None, examName = None, examYear = None, tags = []\<rparr>"

definition ex_q1 :: question where
  "ex_q1 = blank_question\<lparr>qid := ''q1'', subject := Some ''Math'', topic := Some ''Algebra'',
     difficulty := Some ''Easy'', examYear := Some 2020\<rparr>"

definition ex_q2 :: question where
  "ex_q2 = blank_question\<lparr>qid := ''q2'', subject := Some ''Math'', topic := Some ''Geometry'',
     difficulty := Some ''Hard'', examYear := Some 2021\<rparr>"

definition ex_db :: "question list" where
  "ex_db = [ex_q1, ex_q2]"

definition ex_filters :: filters where
  "ex_filters = (\<lambda>k. [])(Subject := [Str ''Math''], Difficulty := [Str ''Hard''], ExamYear := [Num 2021])"

definition ex_state :: app_state where
  "ex_state = initial_state\<lparr>selectedFilters := ex_filters\<rparr>"

text \<open>The page after \<open>populateFilterControls\<close> has rendered the example store.\<close>

definition ex_page :: app_state where
  "ex_page = populateFilterControls ex_db initial_state"



text \<open>Example inputs of \<open>initDatabase\<close>: a response and two stores, one stale, one current.\<close>

definition ex_response :: response where
  "ex_response = \<lparr>resp_ok = True, resp_status = 200, resp_contentLength = Some ''4'',
     resp_hasBody = True, resp_chunks = [''[{'', ''}]'']\<rparr>"

definition ex_parse :: "string \<Rightarrow> question list option" where
  "ex_parse t = (if t = ''[{}]'' then Some ex_db else None)"

definition ex_stale :: storage where
  "ex_stale = \<lparr>databaseVersion = Some ''0.9'', questions = [ex_q1]\<rparr>"

definition ex_current :: storage where
  "ex_current = \<lparr>databaseVersion = Some ''1.0'', questions = [ex_q1]\<rparr>"

text \<open>A store with a sub-topic, and a Filter State with a subject and a topic selected.\<close>

definition ex_q3 :: question where
  "ex_q3 = ex_q2\<lparr>qid := ''q3'', subTopic := Some ''Triangles''\<rparr>"

definition ex_dep_db :: "question list" where
  "ex_dep_db = [ex_q1, ex_q2, ex_q3]"

definition ex_dep_state :: app_state where
  "ex_dep_state = initial_state\<lparr>selectedFilters :=
     (\<lambda>k. [])(Subject := [Str ''Math''], Topic := [Str ''Geometry''])\<rparr>"

text \<open>Reachable states of the example store: a subject is ticked, then an option of the topic list.\<close>

definition ex_r0 :: app_state where
  "ex_r0 = snd (initializeFilterDataSource ex_db initial_state)"

definition ex_r1 :: app_state where
  "ex_r1 = fire (\<lambda>i. 0) ex_db (ClickCheckbox Subject 0) ex_r0"

definition ex_r2 :: app_state where
  "ex_r2 = fire (\<lambda>i. 0) ex_db (ClickCheckbox Topic 0) ex_r1"

subsection \<open>Auxiliary notions for the proofs\<close>

text \<open>\<open>dom_only st st'\<close>: \<open>st'\<close> differs from \<open>st\<close> in the rendered controls at most.\<close>

definition dom_only :: "app_state \<Rightarrow> app_state \<Rightarrow> bool" where
  "dom_only st st' =
     (selectedFilters st' = selectedFilters st \<and>
      filteredQuestionsMasterList st' = filteredQuestionsMasterList st \<and>
      questionCount st' = questionCount st \<and>
      startQuizBtn_disabled st' = startQuizBtn_disabled st \<and>
      activeFiltersSummaryBar st' = activeFiltersSummaryBar st \<and>
      summaryBar_shown st' = summaryBar_shown st \<and>
      events st' = events st)"

text \<open>What \<open>applyFilters\<close> writes when it has read the list \<open>qs\<close>.\<close>

definition withMasterList :: "question list \<Rightarrow> app_state \<Rightarrow> app_state" where
  "withMasterList qs st = updateQuestionCount (st\<lparr>filteredQuestionsMasterList := qs\<rparr>)"

text \<open>
  The invariant behind the classification hierarchy: besides the hierarchy itself, the
  topic list shows options only while a subject is selected, the sub-topic list only
  while a topic is selected, neither is a segmented control, and the summary bar holds no
  chip.
\<close>

definition noSegments :: "app_state \<Rightarrow> filterKey \<Rightarrow> bool" where
  "noSegments st k = (segmentedControl (filterElements st k) = None)"

definition listEmpty :: "app_state \<Rightarrow> filterKey \<Rightarrow> bool" where
  "listEmpty st k = (case list_el (filterElements st k) of None \<Rightarrow> True | Some items \<Rightarrow> items = [])"

definition page_inv :: "app_state \<Rightarrow> bool" where
  "page_inv st =
     (hierarchy_ok (selectedFilters st) \<and>
      noSegments st Topic \<and> noSegments st SubTopic \<and>
      (selectedFilters st Subject = [] \<longrightarrow> listEmpty st Topic) \<and>
      (selectedFilters st Topic = [] \<longrightarrow> listEmpty st SubTopic) \<and>
      activeFiltersSummaryBar st = [])"

section \<open>Proofs\<close>

subsection \<open>Keys and key paths\<close>

lemma set_filterKeys: "set filterKeys = UNIV"
proof -
  have "k \<in> set filterKeys" for k by (cases k) (simp_all add: filterKeys_def)
  then show ?thesis by blast
qed

lemma distinct_filterKeys: "distinct filterKeys"
  by (simp add: filterKeys_def)

lemma allEmpty_iff:
  "allEmpty fs \<longleftrightarrow>
     fs Subject = [] \<and> fs Topic = [] \<and> fs SubTopic = [] \<and> fs Difficulty = [] \<and>
     fs QuestionType = [] \<and> fs ExamName = [] \<and> fs ExamYear = [] \<and> fs Tags = []"
  by (simp add: allEmpty_def filterKeys_def)

lemma allEmpty_all: "allEmpty fs \<longleftrightarrow> (\<forall>k. fs k = [])"
  by (simp add: allEmpty_def list_all_iff set_filterKeys)

lemma js_error_is_TypeError: "(e :: js_error) = TypeError"
  by (cases e) simp

subsection \<open>Frame properties of the rendering functions\<close>

lemma dom_only_refl: "dom_only st st"
  by (simp add: dom_only_def)

lemma dom_only_fields:
  assumes "dom_only st st'"
  shows "selectedFilters st' = selectedFilters st"
    and "filteredQuestionsMasterList st' = filteredQuestionsMasterList st"
    and "questionCount st' = questionCount st"
    and "startQuizBtn_disabled st' = startQuizBtn_disabled st"
    and "activeFiltersSummaryBar st' = activeFiltersSummaryBar st"
    and "summaryBar_shown st' = summaryBar_shown st"
    and "events st' = events st"
  using assms by (simp_all add: dom_only_def)

lemma dom_only_trans: "dom_only a b \<Longrightarrow> dom_only b c \<Longrightarrow> dom_only a c"
  by (simp add: dom_only_def)

lemma dom_only_set_element: "dom_only st (set_element k f st)"
  by (simp add: dom_only_def set_element_def)

lemma filterElements_set_element:
  "filterElements (set_element k f st) = (filterElements st)(k := f (filterElements st k))"
  by (simp add: set_element_def)

lemmas set_element_fields = dom_only_fields [OF dom_only_set_element]

lemma dom_only_populateMultiSelect: "dom_only st (populateMultiSelect k opts st)"
  by (simp add: populateMultiSelect_def dom_only_set_element dom_only_refl Let_def
      split: option.split)

lemma dom_only_populateSegmentedControl: "dom_only st (populateSegmentedControl k opts st)"
  by (simp add: populateSegmentedControl_def dom_only_set_element dom_only_refl
      split: option.split)

lemma dom_only_updateFilterUI: "dom_only st (updateFilterUI k c st)"
  by (simp add: updateFilterUI_def dom_only_set_element dom_only_refl split: option.split)

lemmas populateMultiSelect_fields = dom_only_fields [OF dom_only_populateMultiSelect]
lemmas populateSegmentedControl_fields = dom_only_fields [OF dom_only_populateSegmentedControl]
lemmas updateFilterUI_fields = dom_only_fields [OF dom_only_updateFilterUI]

lemma dom_only_updateAll_loop: "dom_only st (snd (updateAll_loop db ks st))"
proof (induction ks arbitrary: st)
  case Nil
  then show ?case by (simp add: dom_only_refl)
next
  case (Cons k ks)
  show ?case
  proof (cases "countsFor db (selectedFilters st) k")
    case (Inl e)
    then show ?thesis by (simp add: dom_only_refl)
  next
    case (Inr c)
    from dom_only_trans [OF dom_only_updateFilterUI Cons [of "updateFilterUI k c st"]] Inr
    show ?thesis by simp
  qed
qed

lemma dom_only_updateAll: "dom_only st (snd (updateAllFilterCountsAndAvailability db st))"
  by (simp add: updateAllFilterCountsAndAvailability_def dom_only_updateAll_loop)

lemmas updateAll_fields = dom_only_fields [OF dom_only_updateAll]

lemma dom_only_updateDependentFilters: "dom_only st (updateDependentFilters db st)"
  unfolding dom_only_def
  by (simp add: updateDependentFilters_def Let_def set_element_fields populateMultiSelect_fields)

lemmas updateDependentFilters_fields = dom_only_fields [OF dom_only_updateDependentFilters]

lemma dom_only_populateFilterControls: "dom_only st (populateFilterControls db st)"
  unfolding dom_only_def
  by (simp add: populateFilterControls_def Let_def set_element_fields populateMultiSelect_fields
      populateSegmentedControl_fields)

lemmas populateFilterControls_fields = dom_only_fields [OF dom_only_populateFilterControls]

subsection \<open>\<open>applyFilters\<close>\<close>

lemma applyFilters_rejects:
  "\<not> allEmpty (selectedFilters st) \<Longrightarrow> applyFilters db st = (Inl TypeError, st)"
  by (simp add: applyFilters_def allEmpty_iff collection_where_def Let_def)

lemma applyFilters_allEmpty:
  "allEmpty (selectedFilters st) \<Longrightarrow>
   applyFilters db st =
     (Inr (toArray (toCollection db)), withMasterList (toArray (toCollection db)) st)"
  by (simp add: applyFilters_def allEmpty_iff withMasterList_def Let_def)

lemma withMasterList_fields:
  "selectedFilters (withMasterList qs st) = selectedFilters st"
  "filterElements (withMasterList qs st) = filterElements st"
  "events (withMasterList qs st) = events st"
  "activeFiltersSummaryBar (withMasterList qs st) = activeFiltersSummaryBar st"
  "filteredQuestionsMasterList (withMasterList qs st) = qs"
  "questionCount (withMasterList qs st) = length qs"
  "startQuizBtn_disabled (withMasterList qs st) = (qs = [])"
  by (simp_all add: withMasterList_def updateQuestionCount_def Let_def)

lemma applyFilters_fields:
  "selectedFilters (snd (applyFilters db st)) = selectedFilters st"
  "filterElements (snd (applyFilters db st)) = filterElements st"
  "events (snd (applyFilters db st)) = events st"
  "activeFiltersSummaryBar (snd (applyFilters db st)) = activeFiltersSummaryBar st"
  by (cases "allEmpty (selectedFilters st)";
      simp add: applyFilters_rejects applyFilters_allEmpty withMasterList_fields)+

subsection \<open>\<open>onFilterStateChange\<close>\<close>

lemma onFilterStateChange_rejects:
  "\<not> allEmpty (selectedFilters st) \<Longrightarrow>
   onFilterStateChange db st = (Some TypeError, updateDependentFilters db st)"
  by (simp add: onFilterStateChange_def Let_def applyFilters_rejects updateDependentFilters_fields)

lemma onFilterStateChange_allEmpty:
  "allEmpty (selectedFilters st) \<Longrightarrow>
   onFilterStateChange db st =
     (case updateAllFilterCountsAndAvailability db
             (withMasterList (toArray (toCollection db)) (updateDependentFilters db st)) of
        (Some e, st') \<Rightarrow> (Some e, st')
      | (None, st') \<Rightarrow> (None, updateActiveFiltersSummaryBar st'))"
  by (simp add: onFilterStateChange_def Let_def applyFilters_allEmpty updateDependentFilters_fields)

lemma updateActiveFiltersSummaryBar_fields:
  "selectedFilters (updateActiveFiltersSummaryBar st) = selectedFilters st"
  "filterElements (updateActiveFiltersSummaryBar st) = filterElements st"
  "events (updateActiveFiltersSummaryBar st) = events st"
  "filteredQuestionsMasterList (updateActiveFiltersSummaryBar st) = filteredQuestionsMasterList st"
  by (simp_all add: updateActiveFiltersSummaryBar_def Let_def)

lemma updateActiveFiltersSummaryBar_allEmpty:
  "allEmpty (selectedFilters st) \<Longrightarrow> activeFiltersSummaryBar (updateActiveFiltersSummaryBar st) = []"
  by (simp add: updateActiveFiltersSummaryBar_def Let_def allEmpty_all)

lemma onFilterStateChange_fields:
  "selectedFilters (snd (onFilterStateChange db st)) = selectedFilters st"
  "events (snd (onFilterStateChange db st)) = events st"
proof -
  let ?s = "withMasterList (toArray (toCollection db)) (updateDependentFilters db st)"
  obtain e st' where u: "updateAllFilterCountsAndAvailability db ?s = (e, st')"
    by (cases "updateAllFilterCountsAndAvailability db ?s")
  from dom_only_updateAll [of ?s db] u have d: "dom_only ?s st'" by simp
  show "selectedFilters (snd (onFilterStateChange db st)) = selectedFilters st"
    by (cases "allEmpty (selectedFilters st)")
      (simp_all add: onFilterStateChange_rejects onFilterStateChange_allEmpty u
        updateActiveFiltersSummaryBar_fields dom_only_fields [OF d] withMasterList_fields
        updateDependentFilters_fields split: option.split)
  show "events (snd (onFilterStateChange db st)) = events st"
    by (cases "allEmpty (selectedFilters st)")
      (simp_all add: onFilterStateChange_rejects onFilterStateChange_allEmpty u
        updateActiveFiltersSummaryBar_fields dom_only_fields [OF d] withMasterList_fields
        updateDependentFilters_fields split: option.split)
qed

lemma onFilterStateChange_master:
  "allEmpty (selectedFilters st) \<Longrightarrow>
   filteredQuestionsMasterList (snd (onFilterStateChange db st)) = toArray (toCollection db)"
proof -
  assume a: "allEmpty (selectedFilters st)"
  let ?s = "withMasterList (toArray (toCollection db)) (updateDependentFilters db st)"
  obtain e st' where u: "updateAllFilterCountsAndAvailability db ?s = (e, st')"
    by (cases "updateAllFilterCountsAndAvailability db ?s")
  from dom_only_updateAll [of ?s db] u have d: "dom_only ?s st'" by simp
  from a show ?thesis
    by (simp add: onFilterStateChange_allEmpty u updateActiveFiltersSummaryBar_fields
        dom_only_fields [OF d] withMasterList_fields split: option.split)
qed

subsection \<open>Selection changes\<close>

lemma selectedFilters_handleSelectionChange:
  "selectedFilters (snd (handleSelectionChange k v db st)) =
     (let fs = (selectedFilters st)
            (k := (if v \<in> set (selectedFilters st k) then remove1 v (selectedFilters st k)
                   else selectedFilters st k @ [v]))
      in if k = Subject then fs(Topic := [], SubTopic := [])
         else if k = Topic then fs(SubTopic := [])
         else fs)"
  by (simp add: handleSelectionChange_def Let_def onFilterStateChange_fields)

lemma events_handleSelectionChange: "events (snd (handleSelectionChange k v db st)) = events st"
  by (simp add: handleSelectionChange_def Let_def onFilterStateChange_fields)

lemma subject_change_clears:
  "selectedFilters (snd (handleSelectionChange Subject v db st)) Topic = []"
  "selectedFilters (snd (handleSelectionChange Subject v db st)) SubTopic = []"
  by (simp_all add: selectedFilters_handleSelectionChange Let_def)

lemma deselect_clears_dependents:
  assumes "xs \<noteq> []"
  shows "selectedFilters (foldl (\<lambda>a x. snd (handleSelectionChange Subject x db a)) st xs) Topic = [] \<and>
         selectedFilters (foldl (\<lambda>a x. snd (handleSelectionChange Subject x db a)) st xs) SubTopic = []"
  using assms by (induction xs rule: rev_induct) (simp_all add: subject_change_clears)

lemma deselect_all_subjects:
  assumes "distinct (selectedFilters st Subject)" and "distinct xs"
    and "set xs \<subseteq> set (selectedFilters st Subject)"
  shows "selectedFilters (foldl (\<lambda>a x. snd (handleSelectionChange Subject x db a)) st xs) Subject =
         filter (\<lambda>y. y \<notin> set xs) (selectedFilters st Subject)"
  using assms
proof (induction xs rule: rev_induct)
  case Nil
  then show ?case by simp
next
  case (snoc x xs)
  let ?a = "foldl (\<lambda>a x. snd (handleSelectionChange Subject x db a)) st xs"
  from snoc have ih: "selectedFilters ?a Subject = filter (\<lambda>y. y \<notin> set xs) (selectedFilters st Subject)"
    by simp
  from snoc.prems have x: "x \<in> set (selectedFilters st Subject)" "x \<notin> set xs" by auto
  have d: "distinct (selectedFilters ?a Subject)" using snoc.prems(1) ih by simp
  have "selectedFilters (snd (handleSelectionChange Subject x db ?a)) Subject =
        remove1 x (selectedFilters ?a Subject)"
    using x ih by (simp add: selectedFilters_handleSelectionChange Let_def)
  also have "\<dots> = filter (\<lambda>y. y \<noteq> x) (selectedFilters ?a Subject)"
    using d by (simp add: distinct_remove1_removeAll removeAll_filter_not_eq) metis
  also have "\<dots> = filter (\<lambda>y. y \<notin> set (xs @ [x])) (selectedFilters st Subject)"
    by (simp add: ih conj_commute)
  finally show ?case by simp
qed

text \<open>
  C3. \<open>handleSelectionChange\<close> toggles the membership of the value in the selection of
  the key (selections hold no value twice); a change of subject clears the topic and
  sub-topic selections, a change of topic clears the sub-topic selection, and no other
  selection changes. In particular, selecting a subject, then a topic, then deselecting
  every selected subject (in any order) leaves the topic and sub-topic selections, and
  the subject selection, empty.
\<close>

theorem handleSelectionChange_toggle_cascade:
  "(distinct (selectedFilters st k) \<longrightarrow>
      set (selectedFilters (snd (handleSelectionChange k v db st)) k) =
        (if v \<in> set (selectedFilters st k) then set (selectedFilters st k) - {v}
         else insert v (set (selectedFilters st k)))) \<and>
   (k = Subject \<longrightarrow> selectedFilters (snd (handleSelectionChange k v db st)) Topic = [] \<and>
                     selectedFilters (snd (handleSelectionChange k v db st)) SubTopic = []) \<and>
   (k = Topic \<longrightarrow> selectedFilters (snd (handleSelectionChange k v db st)) SubTopic = []) \<and>
   (\<forall>k' \<in> set filterKeys. k' \<noteq> k \<longrightarrow> \<not> (k = Subject \<and> (k' = Topic \<or> k' = SubTopic)) \<longrightarrow>
      \<not> (k = Topic \<and> k' = SubTopic) \<longrightarrow>
      selectedFilters (snd (handleSelectionChange k v db st)) k' = selectedFilters st k') \<and>
   (s \<notin> set (selectedFilters st Subject) \<longrightarrow>
      (let st1 = snd (handleSelectionChange Subject s db st);
           st2 = snd (handleSelectionChange Topic t db st1);
           st3 = foldl (\<lambda>a x. snd (handleSelectionChange Subject x db a)) st2 xs
       in distinct xs \<and> set xs = set (selectedFilters st2 Subject) \<longrightarrow>
          selectedFilters st3 Topic = [] \<and> selectedFilters st3 SubTopic = [] \<and>
          (distinct (selectedFilters st Subject) \<longrightarrow> selectedFilters st3 Subject = [])))"
proof (intro conjI impI ballI)
  assume "distinct (selectedFilters st k)"
  then show "set (selectedFilters (snd (handleSelectionChange k v db st)) k) =
        (if v \<in> set (selectedFilters st k) then set (selectedFilters st k) - {v}
         else insert v (set (selectedFilters st k)))"
    by (cases "k = Subject"; cases "k = Topic")
      (simp_all add: selectedFilters_handleSelectionChange Let_def set_remove1_eq)
next
  assume "k = Subject"
  then show "selectedFilters (snd (handleSelectionChange k v db st)) Topic = []"
    and "selectedFilters (snd (handleSelectionChange k v db st)) SubTopic = []"
    by (simp_all add: subject_change_clears)
next
  assume "k = Topic"
  then show "selectedFilters (snd (handleSelectionChange k v db st)) SubTopic = []"
    by (simp add: selectedFilters_handleSelectionChange Let_def)
next
  fix k'
  assume "k' \<noteq> k" "\<not> (k = Subject \<and> (k' = Topic \<or> k' = SubTopic))" "\<not> (k = Topic \<and> k' = SubTopic)"
  then show "selectedFilters (snd (handleSelectionChange k v db st)) k' = selectedFilters st k'"
    by (auto simp: selectedFilters_handleSelectionChange Let_def)
next
  assume s: "s \<notin> set (selectedFilters st Subject)"
  define st1 where "st1 = snd (handleSelectionChange Subject s db st)"
  define st2 where "st2 = snd (handleSelectionChange Topic t db st1)"
  define st3 where "st3 = foldl (\<lambda>a x. snd (handleSelectionChange Subject x db a)) st2 xs"
  have sub2: "selectedFilters st2 Subject = selectedFilters st Subject @ [s]"
    using s by (simp add: st2_def st1_def selectedFilters_handleSelectionChange Let_def)
  have "selectedFilters st3 Topic = [] \<and> selectedFilters st3 SubTopic = [] \<and>
        (distinct (selectedFilters st Subject) \<longrightarrow> selectedFilters st3 Subject = [])"
    if xs: "distinct xs \<and> set xs = set (selectedFilters st2 Subject)"
  proof -
    from xs sub2 have "xs \<noteq> []" by auto
    then have a: "selectedFilters st3 Topic = [] \<and> selectedFilters st3 SubTopic = []"
      unfolding st3_def by (rule deselect_clears_dependents)
    have "selectedFilters st3 Subject = []" if d: "distinct (selectedFilters st Subject)"
    proof -
      from d s sub2 have "distinct (selectedFilters st2 Subject)" by simp
      from deselect_all_subjects [OF this, of xs db] xs
      show ?thesis by (simp add: st3_def)
    qed
    with a show ?thesis by blast
  qed
  then show "let st1 = snd (handleSelectionChange Subject s db st);
           st2 = snd (handleSelectionChange Topic t db st1);
           st3 = foldl (\<lambda>a x. snd (handleSelectionChange Subject x db a)) st2 xs
       in distinct xs \<and> set xs = set (selectedFilters st2 Subject) \<longrightarrow>
          selectedFilters st3 Topic = [] \<and> selectedFilters st3 SubTopic = [] \<and>
          (distinct (selectedFilters st Subject) \<longrightarrow> selectedFilters st3 Subject = [])"
    by (simp add: st1_def st2_def st3_def Let_def)
qed

theorem handleSelectionChange_toggle_cascade_witness:
  "distinct (selectedFilters initial_state Subject) \<and>
   Str ''Math'' \<notin> set (selectedFilters initial_state Subject) \<and>
   set (selectedFilters (snd (handleSelectionChange Subject (Str ''Math'') ex_db initial_state)) Subject) =
     {Str ''Math''} \<and>
   selectedFilters (snd (handleSelectionChange Topic (Str ''Algebra'') ex_db
     (snd (handleSelectionChange Subject (Str ''Math'') ex_db initial_state)))) Subject = [Str ''Math''] \<and>
   selectedFilters (snd (handleSelectionChange Topic (Str ''Algebra'') ex_db
     (snd (handleSelectionChange Subject (Str ''Math'') ex_db initial_state)))) Topic = [Str ''Algebra''] \<and>
   selectedFilters (snd (handleSelectionChange Subject (Str ''Math'') ex_db
     (snd (handleSelectionChange Topic (Str ''Algebra'') ex_db
       (snd (handleSelectionChange Subject (Str ''Math'') ex_db initial_state)))))) Topic = [] \<and>
   selectedFilters (snd (handleSelectionChange Subject (Str ''Math'') ex_db
     (snd (handleSelectionChange Topic (Str ''Algebra'') ex_db
       (snd (handleSelectionChange Subject (Str ''Math'') ex_db initial_state)))))) SubTopic = [] \<and>
   selectedFilters (snd (handleSelectionChange Subject (Str ''Math'') ex_db
     (snd (handleSelectionChange Topic (Str ''Algebra'') ex_db
       (snd (handleSelectionChange Subject (Str ''Math'') ex_db initial_state)))))) Subject = []"
proof -
  have i: "selectedFilters initial_state = (\<lambda>k. [])"
    by (simp add: initial_state_def)
  have s2: "selectedFilters (snd (handleSelectionChange Topic (Str ''Algebra'') ex_db
     (snd (handleSelectionChange Subject (Str ''Math'') ex_db initial_state)))) Subject = [Str ''Math'']"
    by (simp add: selectedFilters_handleSelectionChange Let_def i)
  have t2: "selectedFilters (snd (handleSelectionChange Topic (Str ''Algebra'') ex_db
     (snd (handleSelectionChange Subject (Str ''Math'') ex_db initial_state)))) Topic = [Str ''Algebra'']"
    by (simp add: selectedFilters_handleSelectionChange Let_def i)
  from handleSelectionChange_toggle_cascade
    [of initial_state Subject "Str ''Math''" ex_db "Str ''Math''" "Str ''Algebra''" "[Str ''Math'']"]
  show ?thesis
    by (simp add: Let_def i s2 t2)
qed

subsection \<open>The store\<close>

lemma fst_set_nextunique: "fst ` set (nextunique es) = fst ` set es"
proof (induction es rule: nextunique.induct)
  case 1
  then show ?case by simp
next
  case (2 e es)
  have "fst ` set (nextunique (e # es)) = insert (fst e) (fst ` {e' \<in> set es. fst e' \<noteq> fst e})"
    using 2 by simp
  also have "\<dots> = fst ` set (e # es)" by auto
  finally show ?case .
qed

lemma set_index_entries_primary:
  "set (index_entries None tbl) = (\<lambda>q. (Str (qid q), q)) ` set tbl"
  by (simp add: index_entries_def)

lemma delivers_toCollection: "delivers (toCollection tbl) e"
  by (simp add: delivers_def toCollection_def)

lemma uniqueKeys_toCollection:
  "set (uniqueKeys_cb cb (clone (toCollection tbl))) = (\<lambda>q. Str (qid q)) ` set tbl"
proof -
  have "uniqueKeys (toCollection tbl) = map fst (nextunique (index_entries None tbl))"
    by (simp add: uniqueKeys_def delivers_toCollection) (simp add: toCollection_def)
  then show ?thesis
    by (simp add: uniqueKeys_cb_def clone_def fst_set_nextunique set_index_entries_primary
        image_image)
qed

lemma toArray_toCollection:
  "toArray (toCollection tbl) =
     map snd (sort_key (\<lambda>e. (idbKey (fst e), qid (snd e))) (map (\<lambda>q. (Str (qid q), q)) tbl))"
  by (simp add: toArray_def delivers_toCollection) (simp add: toCollection_def index_entries_def)

lemma mset_toArray_toCollection: "mset (toArray (toCollection tbl)) = mset tbl"
proof -
  have "mset (toArray (toCollection tbl)) = image_mset snd (mset (map (\<lambda>q. (Str (qid q), q)) tbl))"
    unfolding toArray_toCollection by (simp only: mset_map mset_sort)
  then show ?thesis by (simp add: image_mset.compositionality comp_def)
qed

lemma toArray_empty: "toArray (toCollection []) = []"
  by (simp add: toArray_toCollection)

subsection \<open>The count refresh\<close>

lemma baseQuery_loop_Inr: "baseQuery_loop fs k ks c = Inr c' \<Longrightarrow> c' = c"
  by (induction ks) (simp_all add: Let_def split: if_splits)

lemma baseQuery_loop_allEmpty: "allEmpty fs \<Longrightarrow> baseQuery_loop fs k ks c = Inr c"
  by (induction ks) (simp_all add: Let_def allEmpty_all)

lemma map_throw_rejects: "opts \<noteq> [] \<Longrightarrow> map_throw (\<lambda>option. Inl e) opts = Inl e"
  by (cases opts) simp_all

lemma countsFor_rejects:
  assumes "\<exists>q \<in> set db. qid q \<noteq> []"
  shows "countsFor db fs k = Inl TypeError"
proof (cases "baseQuery_loop fs k filterKeys (toCollection db)")
  case (Inl e)
  then show ?thesis by (simp add: countsFor_def js_error_is_TypeError [of e])
next
  case (Inr c)
  then have c: "c = toCollection db" by (rule baseQuery_loop_Inr)
  from assms obtain q where q: "q \<in> set db" "qid q \<noteq> []" by blast
  then have "Str (qid q) \<in> set (uniqueKeys_cb (getQuestionValuePath k) (clone (toCollection db)))"
    by (simp add: uniqueKeys_toCollection)
  moreover from q have "Boolean (Str (qid q))" by simp
  ultimately have "filter Boolean (uniqueKeys_cb (getQuestionValuePath k) (clone (toCollection db))) \<noteq> []"
    unfolding filter_empty_conv by blast
  then show ?thesis
    using Inr c by (simp add: countsFor_def Let_def map_throw_rejects collection_where_def)
qed

lemma updateAll_rejects:
  "\<exists>q \<in> set db. qid q \<noteq> [] \<Longrightarrow>
   updateAllFilterCountsAndAvailability db st = (Some TypeError, st)"
  by (simp add: updateAllFilterCountsAndAvailability_def filterKeys_def countsFor_rejects)

lemma countsFor_empty_store: "allEmpty fs \<Longrightarrow> countsFor [] fs k = Inr Map.empty"
proof -
  assume a: "allEmpty fs"
  have "uniqueKeys_cb (getQuestionValuePath k) (clone (toCollection [])) = []"
    using uniqueKeys_toCollection [of "getQuestionValuePath k" "[]"] by simp
  with a show ?thesis
    by (simp add: countsFor_def baseQuery_loop_allEmpty Let_def countsTable_def)
qed

lemma updateAll_loop_empty_store:
  "allEmpty (selectedFilters st) \<Longrightarrow> fst (updateAll_loop [] ks st) = None"
  by (induction ks arbitrary: st) (simp_all add: countsFor_empty_store updateFilterUI_fields)

lemma updateAll_empty_store:
  "allEmpty (selectedFilters st) \<Longrightarrow> fst (updateAllFilterCountsAndAvailability [] st) = None"
  by (simp add: updateAllFilterCountsAndAvailability_def updateAll_loop_empty_store)

subsection \<open>\<open>resetFilters\<close>\<close>

lemma uncheck_fold_fields:
  "selectedFilters (foldl (\<lambda>st k. set_element k uncheck_all st) st ks) = selectedFilters st"
  "events (foldl (\<lambda>st k. set_element k uncheck_all st) st ks) = events st"
  "activeFiltersSummaryBar (foldl (\<lambda>st k. set_element k uncheck_all st) st ks) =
     activeFiltersSummaryBar st"
  by (induction ks rule: rev_induct) (simp_all add: set_element_fields)

lemma resetFilters_fields:
  "selectedFilters (snd (resetFilters db st)) = (\<lambda>k. [])"
  "events (snd (resetFilters db st)) = events st"
  by (simp_all add: resetFilters_def Let_def onFilterStateChange_fields uncheck_fold_fields)

lemma resetFilters_master:
  "filteredQuestionsMasterList (snd (resetFilters db st)) = toArray (toCollection db)"
  by (simp add: resetFilters_def Let_def onFilterStateChange_master uncheck_fold_fields
      allEmpty_all)

lemma onFilterStateChange_store_rejects:
  assumes "\<exists>q \<in> set db. qid q \<noteq> []"
  shows "fst (onFilterStateChange db st) = Some TypeError"
  by (cases "allEmpty (selectedFilters st)")
    (simp_all add: onFilterStateChange_rejects onFilterStateChange_allEmpty
      updateAll_rejects [OF assms])

lemma resetFilters_rejects:
  "\<exists>q \<in> set db. qid q \<noteq> [] \<Longrightarrow> fst (resetFilters db st) = Some TypeError"
  by (simp add: resetFilters_def Let_def onFilterStateChange_store_rejects)

lemma onFilterStateChange_empty_store:
  assumes "allEmpty (selectedFilters st)"
  shows "fst (onFilterStateChange [] st) = None"
proof -
  let ?s = "withMasterList (toArray (toCollection [])) (updateDependentFilters [] st)"
  obtain e st' where u: "updateAllFilterCountsAndAvailability [] ?s = (e, st')"
    by (cases "updateAllFilterCountsAndAvailability [] ?s")
  from updateAll_empty_store [of ?s] assms u have "e = None"
    by (simp add: withMasterList_fields updateDependentFilters_fields)
  with assms u show ?thesis
    by (simp add: onFilterStateChange_allEmpty)
qed

lemma resetFilters_empty_store: "fst (resetFilters [] st) = None"
  by (simp add: resetFilters_def Let_def onFilterStateChange_empty_store uncheck_fold_fields
      allEmpty_all)

subsection \<open>Quick start\<close>

lemma apply_preset_fields:
  "events (apply_preset p st) = events st"
  "filterElements (apply_preset p st) = filterElements st"
  "activeFiltersSummaryBar (apply_preset p st) = activeFiltersSummaryBar st"
  by (simp_all add: apply_preset_def)

lemma apply_preset_difficulty:
  "p = ''quick_25_easy'' \<or> p = ''quick_25_moderate'' \<or> p = ''quick_25_hard'' \<Longrightarrow>
   selectedFilters (apply_preset p st) Difficulty \<noteq> []"
  by (auto simp: apply_preset_def)

lemma handleQuickStart_difficulty_rejects:
  assumes p: "p = ''quick_25_easy'' \<or> p = ''quick_25_moderate'' \<or> p = ''quick_25_hard''"
  shows "fst (handleQuickStart rnd p db st) = Some TypeError"
    and "events (snd (handleQuickStart rnd p db st)) = events st"
proof -
  obtain e st1 where r: "resetFilters db st = (e, st1)" by (cases "resetFilters db st")
  from resetFilters_fields [of db st] r have ev: "events st1 = events st" by simp
  have ne: "\<not> allEmpty (selectedFilters (apply_preset p st1))"
    using apply_preset_difficulty [OF p, of st1] by (simp add: allEmpty_iff)
  show "fst (handleQuickStart rnd p db st) = Some TypeError"
    by (cases e)
      (simp_all add: handleQuickStart_def r Let_def applyFilters_rejects [OF ne]
        js_error_is_TypeError)
  show "events (snd (handleQuickStart rnd p db st)) = events st"
    by (cases e)
      (simp_all add: handleQuickStart_def r Let_def applyFilters_rejects [OF ne] ev
        apply_preset_fields)
qed

lemma handleQuickStart_store_rejects:
  assumes "\<exists>q \<in> set db. qid q \<noteq> []"
  shows "handleQuickStart rnd p db st = (Some TypeError, snd (resetFilters db st))"
proof -
  obtain e st1 where r: "resetFilters db st = (e, st1)" by (cases "resetFilters db st")
  from resetFilters_rejects [OF assms, of st] r have "e = Some TypeError" by simp
  with r show ?thesis by (simp add: handleQuickStart_def)
qed

lemma handleQuickStart_empty_store_difficulty:
  assumes p: "p = ''quick_25_easy'' \<or> p = ''quick_25_moderate'' \<or> p = ''quick_25_hard''"
  shows "handleQuickStart rnd p [] st = (Some TypeError, apply_preset p (snd (resetFilters [] st)))"
proof -
  obtain e st1 where r: "resetFilters [] st = (e, st1)" by (cases "resetFilters [] st")
  from resetFilters_empty_store [of st] r have e: "e = None" by simp
  have ne: "\<not> allEmpty (selectedFilters (apply_preset p st1))"
    using apply_preset_difficulty [OF p, of st1] by (simp add: allEmpty_iff)
  show ?thesis
    by (simp add: handleQuickStart_def r e Let_def applyFilters_rejects [OF ne])
qed

subsection \<open>The example store\<close>

lemmas store_eval =
  index_entries_def toCollection_def orderBy_def table_where_def delivers_def uniqueKeys_def
  uniqueKeys_cb_def clone_def and_filter_def toArray_def keysAt_def strKey_def numKey_def

lemmas page_eval =
  populateFilterControls_def populateMultiSelect_def populateSegmentedControl_def
  set_element_def initial_state_def multiSelectElement_def segmentedElement_def Let_def

lemmas ex_eval = ex_db_def ex_q1_def ex_q2_def ex_q3_def ex_dep_db_def blank_question_def

lemmas spec_eval =
  satisfies_def constraint_def otherConstraints_def matchCount_def reachableValues_def
  topicsUnder_def subTopicsUnder_def filterKeys_def strKey_def numKey_def

lemma ex_db_ids: "\<exists>q \<in> set ex_db. qid q \<noteq> []"
  by (simp add: ex_eval)

lemma toArray_ex_db: "toArray (toCollection ex_db) = ex_db"
  by (simp add: store_eval ex_eval)

lemma ex_state_selected: "selectedFilters ex_state = ex_filters"
  by (simp add: ex_state_def)

lemma ex_filters_nonEmpty: "\<not> allEmpty ex_filters"
  by (simp add: allEmpty_iff ex_filters_def)

lemma ex_page_selected: "selectedFilters ex_page = (\<lambda>k. [])"
  by (simp add: ex_page_def populateFilterControls_fields initial_state_def)

lemma ex_page_subject:
  "list_el (filterElements ex_page Subject) =
     Some [\<lparr>item_opt = Str ''Math'', item_checked = False, item_disabled = False, item_count = None\<rparr>]"
  by (simp add: ex_page_def page_eval store_eval ex_eval)


subsection \<open>The master list\<close>

text \<open>
  C1. \<open>applyFilters\<close> does not produce the master list the specification describes. It
  calls \<open>where\<close> on the collection of \<open>toCollection()\<close>, which has no such method: for
  every Filter State with a non-empty selection it throws a \<open>TypeError\<close> and writes
  nothing, the master list staying as it was. Only with all eight selections empty does
  it return, with the whole contents of the store.
\<close>

theorem applyFilters_rejects_selection:
  "applyFilters db st =
     (if allEmpty (selectedFilters st)
      then (Inr (toArray (toCollection db)),
            updateQuestionCount (st\<lparr>filteredQuestionsMasterList := toArray (toCollection db)\<rparr>))
      else (Inl TypeError, st)) \<and>
   mset (toArray (toCollection db)) = mset db"
  by (simp add: applyFilters_rejects applyFilters_allEmpty mset_toArray_toCollection
      withMasterList_def)

text \<open>
  The example of the specification: subject ``Math'', difficulty ``Hard'', year 2021
  selected. The specification's master list is the one record \<open>ex_q2\<close>; the program
  throws and leaves the master list empty.
\<close>

theorem applyFilters_rejects_selection_witness:
  "applyFilters ex_db ex_state = (Inl TypeError, ex_state) \<and>
   filteredQuestionsMasterList ex_state = [] \<and>
   filter (satisfies (selectedFilters ex_state)) ex_db = [ex_q2]"
proof -
  have "filter (satisfies ex_filters) ex_db = [ex_q2]"
    by (simp add: spec_eval ex_filters_def ex_eval)
  moreover have "filteredQuestionsMasterList ex_state = []"
    by (simp add: ex_state_def initial_state_def)
  ultimately show ?thesis
    using applyFilters_rejects_selection [of ex_db ex_state]
    by (simp add: ex_state_selected ex_filters_nonEmpty)
qed

subsection \<open>Option counts\<close>

text \<open>
  C2. \<open>updateAllFilterCountsAndAvailability\<close> writes no count. On a store that holds a
  record with a non-empty \<open>id\<close> it throws a \<open>TypeError\<close> in its first round, before
  \<open>updateFilterUI\<close> is called, and leaves the page as it was: the base query is a
  collection, on which \<open>where\<close> is called for the first other key with a selection, and
  otherwise for the first enumerated option. The options it enumerates are not values of
  the key's field: \<open>uniqueKeys\<close> ignores the key path it is handed and lists the keys of
  the index of the base query, the primary keys of the records.
\<close>

theorem updateAllFilterCountsAndAvailability_rejects:
  assumes "\<exists>q \<in> set db. qid q \<noteq> []"
  shows "updateAllFilterCountsAndAvailability db st = (Some TypeError, st) \<and>
         countsFor db (selectedFilters st) K = Inl TypeError \<and>
         set (uniqueKeys_cb (getQuestionValuePath K) (clone (toCollection db))) =
           (\<lambda>q. Str (qid q)) ` set db"
  using assms by (simp add: updateAll_rejects countsFor_rejects uniqueKeys_toCollection)

text \<open>
  The page that has rendered the example store: the subject ``Math'' is displayed and two
  records match it, but the refresh throws and the option shows no count; the options
  enumerated for the subject are the two record ids, where the specification has the one
  subject value.
\<close>

theorem updateAllFilterCountsAndAvailability_rejects_witness:
  "(\<exists>q \<in> set ex_db. qid q \<noteq> []) \<and>
   updateAllFilterCountsAndAvailability ex_db ex_page = (Some TypeError, ex_page) \<and>
   displayed ex_page Subject = [(Str ''Math'', None, False, False)] \<and>
   matchCount ex_db (selectedFilters ex_page) Subject (Str ''Math'') = 2 \<and>
   filter Boolean (uniqueKeys_cb (getQuestionValuePath Subject) (clone (toCollection ex_db))) =
     [Str ''q1'', Str ''q2''] \<and>
   reachableValues ex_db (selectedFilters ex_page) Subject = {Str ''Math''}"
proof -
  have d: "displayed ex_page Subject = [(Str ''Math'', None, False, False)]"
    by (simp add: displayed_def ex_page_subject)
  have m: "matchCount ex_db (\<lambda>k. []) Subject (Str ''Math'') = 2"
    by (simp add: spec_eval ex_eval)
  have r: "reachableValues ex_db (\<lambda>k. []) Subject = {Str ''Math''}"
    by (simp add: spec_eval ex_eval)
  have u: "filter Boolean (uniqueKeys_cb (getQuestionValuePath Subject) (clone (toCollection ex_db))) =
     [Str ''q1'', Str ''q2'']"
    by (simp add: store_eval ex_eval)
  from updateAllFilterCountsAndAvailability_rejects [OF ex_db_ids, of ex_page Subject] d m r u
  show ?thesis by (simp add: ex_page_selected ex_db_ids)
qed

subsection \<open>Quick start\<close>

text \<open>
  C6. Quick start with the preset ``hard'' starts no quiz, whatever the store holds: the
  call is rejected with a \<open>TypeError\<close> and \<open>startQuiz\<close> is not called. On a store that
  holds a record with a non-empty \<open>id\<close>, it is the first statement
  \<open>await resetFilters()\<close> that is rejected (the count refresh throws): the preset is not
  applied, no sample is taken, and the master list is left with the whole contents of the
  store. On any other store \<open>applyFilters\<close> throws for the difficulty that the preset has
  selected.
\<close>

theorem handleQuickStart_hard_rejects:
  "fst (handleQuickStart rnd ''quick_25_hard'' db st) = Some TypeError \<and>
   events (snd (handleQuickStart rnd ''quick_25_hard'' db st)) = events st \<and>
   ((\<exists>q \<in> set db. qid q \<noteq> []) \<longrightarrow>
      selectedFilters (snd (handleQuickStart rnd ''quick_25_hard'' db st)) = (\<lambda>k. []) \<and>
      mset (filteredQuestionsMasterList (snd (handleQuickStart rnd ''quick_25_hard'' db st))) =
        mset db)"
proof -
  have h: "''quick_25_hard'' = ''quick_25_easy'' \<or> ''quick_25_hard'' = ''quick_25_moderate'' \<or>
           ''quick_25_hard'' = ''quick_25_hard''"
    by simp
  have "selectedFilters (snd (handleQuickStart rnd ''quick_25_hard'' db st)) = (\<lambda>k. []) \<and>
        mset (filteredQuestionsMasterList (snd (handleQuickStart rnd ''quick_25_hard'' db st))) =
          mset db"
    if "\<exists>q \<in> set db. qid q \<noteq> []"
    by (simp add: handleQuickStart_store_rejects [OF that] resetFilters_fields
        resetFilters_master mset_toArray_toCollection)
  with handleQuickStart_difficulty_rejects [OF h, of rnd db st] show ?thesis
    by blast
qed

text \<open>
  The example store holds one ``Hard'' record, \<open>ex_q2\<close>. After quick start ``hard'' on
  the page that has loaded it, nothing was signalled, no difficulty is selected and the
  master list holds both records, the ``Easy'' one included.
\<close>

theorem handleQuickStart_hard_rejects_witness:
  "(\<exists>q \<in> set ex_db. qid q \<noteq> []) \<and>
   filter (preset_admits ''quick_25_hard'') ex_db = [ex_q2] \<and>
   fst (handleQuickStart (\<lambda>i. 0) ''quick_25_hard'' ex_db ex_page) = Some TypeError \<and>
   events (snd (handleQuickStart (\<lambda>i. 0) ''quick_25_hard'' ex_db ex_page)) = [] \<and>
   selectedFilters (snd (handleQuickStart (\<lambda>i. 0) ''quick_25_hard'' ex_db ex_page)) Difficulty = [] \<and>
   filteredQuestionsMasterList (snd (handleQuickStart (\<lambda>i. 0) ''quick_25_hard'' ex_db ex_page)) =
     [ex_q1, ex_q2] \<and>
   difficulty ex_q1 = Some ''Easy''"
proof -
  have p: "filter (preset_admits ''quick_25_hard'') ex_db = [ex_q2]"
    by (simp add: preset_admits_def ex_eval)
  have e: "events ex_page = []"
    by (simp add: ex_page_def populateFilterControls_fields initial_state_def)
  have m: "filteredQuestionsMasterList (snd (handleQuickStart (\<lambda>i. 0) ''quick_25_hard'' ex_db ex_page)) =
     [ex_q1, ex_q2]"
    by (simp add: handleQuickStart_store_rejects [OF ex_db_ids] resetFilters_master toArray_ex_db)
      (simp add: ex_db_def)
  have d: "difficulty ex_q1 = Some ''Easy''"
    by (simp add: ex_eval)
  from handleQuickStart_hard_rejects [of "\<lambda>i. 0" ex_db ex_page] ex_db_ids p e m d
  show ?thesis by simp
qed

text \<open>
  C7. Quick start with a preset that no record matches neither warns nor resets. With a
  difficulty preset the call is rejected on every store and no warning is shown: on a
  store with a non-empty \<open>id\<close> in \<open>resetFilters\<close>, as above, and otherwise in
  \<open>applyFilters\<close>, which throws for the difficulty that the preset has just selected. On
  the empty store that difficulty stays selected.
\<close>

theorem handleQuickStart_no_match_rejects:
  assumes "p = ''quick_25_easy'' \<or> p = ''quick_25_moderate'' \<or> p = ''quick_25_hard''"
  shows "fst (handleQuickStart rnd p db st) = Some TypeError \<and>
         events (snd (handleQuickStart rnd p db st)) = events st \<and>
         selectedFilters (snd (handleQuickStart rnd p [] st)) Difficulty \<noteq> []"
  by (simp add: handleQuickStart_difficulty_rejects [OF assms]
      handleQuickStart_empty_store_difficulty [OF assms] apply_preset_difficulty [OF assms])

text \<open>
  Preset ``hard'' on the empty store, and on a store whose one record is ``Easy'': no
  record matches, the call is rejected and nothing is shown; on the empty store ``Hard''
  stays selected.
\<close>

theorem handleQuickStart_no_match_rejects_witness:
  "list_all (\<lambda>q. \<not> preset_admits ''quick_25_hard'' q) [ex_q1] \<and>
   fst (handleQuickStart (\<lambda>i. 0) ''quick_25_hard'' [] initial_state) = Some TypeError \<and>
   events (snd (handleQuickStart (\<lambda>i. 0) ''quick_25_hard'' [] initial_state)) = [] \<and>
   selectedFilters (snd (handleQuickStart (\<lambda>i. 0) ''quick_25_hard'' [] initial_state)) Difficulty =
     [Str ''Hard''] \<and>
   fst (handleQuickStart (\<lambda>i. 0) ''quick_25_hard'' [ex_q1] initial_state) = Some TypeError \<and>
   events (snd (handleQuickStart (\<lambda>i. 0) ''quick_25_hard'' [ex_q1] initial_state)) = []"
proof -
  have a: "list_all (\<lambda>q. \<not> preset_admits ''quick_25_hard'' q) [ex_q1]"
    by (simp add: preset_admits_def ex_eval)
  have e: "events initial_state = []"
    by (simp add: initial_state_def)
  have h: "''quick_25_hard'' = ''quick_25_easy'' \<or> ''quick_25_hard'' = ''quick_25_moderate'' \<or>
           ''quick_25_hard'' = ''quick_25_hard''"
    by simp
  have s: "selectedFilters (snd (handleQuickStart (\<lambda>i. 0) ''quick_25_hard'' [] initial_state)) Difficulty =
     [Str ''Hard'']"
    by (simp add: handleQuickStart_empty_store_difficulty [OF h] apply_preset_def)
  from handleQuickStart_no_match_rejects [OF h, of "\<lambda>i. 0" "[]" initial_state]
    handleQuickStart_no_match_rejects [OF h, of "\<lambda>i. 0" "[ex_q1]" initial_state] a e s
  show ?thesis by simp
qed

text \<open>
  What the claim describes happens in one case: the store is empty and the preset sets no
  difficulty. Then the sample is empty, the warning is shown and the Filter State is
  reset.
\<close>

lemma handleQuickStart_mix_empty_store:
  assumes "p \<noteq> ''quick_25_easy''" "p \<noteq> ''quick_25_moderate''" "p \<noteq> ''quick_25_hard''"
  shows "fst (handleQuickStart rnd p [] st) = None"
    and "events (snd (handleQuickStart rnd p [] st)) = events st @ [quickStart_warning]"
    and "selectedFilters (snd (handleQuickStart rnd p [] st)) = (\<lambda>k. [])"
proof -
  obtain e st1 where r: "resetFilters [] st = (e, st1)" by (cases "resetFilters [] st")
  from resetFilters_empty_store [of st] r have e: "e = None" by simp
  from resetFilters_fields [of "[]" st] r
  have f: "selectedFilters st1 = (\<lambda>k. [])" "events st1 = events st" by simp_all
  have ap: "apply_preset p st1 = st1" using assms by (simp add: apply_preset_def)
  have ae: "allEmpty (selectedFilters st1)" by (simp add: f allEmpty_all)
  let ?w = "updateQuestionCount (withMasterList [] st1\<lparr>filteredQuestionsMasterList := []\<rparr>)
              \<lparr>events := events st @ [quickStart_warning]\<rparr>"
  have h: "handleQuickStart rnd p [] st = resetFilters [] ?w"
    by (simp add: handleQuickStart_def r e ap applyFilters_allEmpty [OF ae] toArray_empty
        shuffleArray_def Let_def updateQuestionCount_def withMasterList_def f)
  show "fst (handleQuickStart rnd p [] st) = None"
    by (simp add: h resetFilters_empty_store)
  show "events (snd (handleQuickStart rnd p [] st)) = events st @ [quickStart_warning]"
    by (simp add: h resetFilters_fields)
  show "selectedFilters (snd (handleQuickStart rnd p [] st)) = (\<lambda>k. [])"
    by (simp add: h resetFilters_fields)
qed

subsection \<open>\<open>startFilteredQuiz\<close>\<close>

text \<open>
  C8. \<open>startFilteredQuiz\<close> on an empty Filtered Master List shows a warning and changes
  nothing else (Filter State, master list and page are as before, no quiz is started);
  on a non-empty list it signals the quiz start, the master list as it is.
\<close>

theorem startFilteredQuiz_cases:
  "(filteredQuestionsMasterList st = [] \<longrightarrow>
      startFilteredQuiz st =
        st\<lparr>events := events st @ [Swal_warning ''No Questions Found''
               ''Please adjust your filters to select at least one question.'']\<rparr>) \<and>
   (filteredQuestionsMasterList st \<noteq> [] \<longrightarrow>
      startFilteredQuiz st = st\<lparr>events := events st @ [StartQuiz]\<rparr>)"
  by (simp add: startFilteredQuiz_def)

lemma ex_r0_master: "filteredQuestionsMasterList ex_r0 = ex_db" "events ex_r0 = []"
  by (simp_all add: ex_r0_def initializeFilterDataSource_def onFilterStateChange_master
      onFilterStateChange_fields populateFilterControls_fields allEmpty_all toArray_ex_db
      initial_state_def)

theorem startFilteredQuiz_cases_witness:
  "filteredQuestionsMasterList initial_state = [] \<and>
   events (startFilteredQuiz initial_state) =
     [Swal_warning ''No Questions Found''
        ''Please adjust your filters to select at least one question.''] \<and>
   selectedFilters (startFilteredQuiz initial_state) = selectedFilters initial_state \<and>
   filteredQuestionsMasterList (startFilteredQuiz initial_state) = [] \<and>
   filteredQuestionsMasterList ex_r0 = ex_db \<and>
   events (startFilteredQuiz ex_r0) = [StartQuiz] \<and>
   filteredQuestionsMasterList (startFilteredQuiz ex_r0) = ex_db"
proof -
  have e: "filteredQuestionsMasterList initial_state = []" "events initial_state = []"
    by (simp_all add: initial_state_def)
  note m = ex_r0_master
  have n: "ex_db \<noteq> []" by (simp add: ex_db_def)
  from startFilteredQuiz_cases [of initial_state] startFilteredQuiz_cases [of ex_r0] e m n
  show ?thesis by simp
qed

subsection \<open>\<open>initDatabase\<close>\<close>

lemma bulkAdd_snoc:
  "bulkAdd t (qs @ [q]) =
     (let (ok, t') = bulkAdd t qs
      in if qid q \<in> qid ` set t' then (False, t') else (ok, t' @ [q]))"
  by (simp add: bulkAdd_def split: prod.split)

lemma bulkAdd_subset: "set (snd (bulkAdd t qs)) \<subseteq> set t \<union> set qs"
  by (induction qs rule: rev_induct) (auto simp: bulkAdd_snoc bulkAdd_def split: prod.splits)

lemma bulkAdd_distinct:
  "distinct (map qid qs) \<Longrightarrow> bulkAdd [] qs = (True, qs)"
  by (induction qs rule: rev_induct) (auto simp: bulkAdd_snoc bulkAdd_def)

lemma read_chunks_concat:
  "concat (fst (read_chunks cs (acc, n))) = concat acc @ concat cs"
  by (induction cs arbitrary: acc n) simp_all

lemma response_text_concat: "response_text r = concat (resp_chunks r)"
  using read_chunks_concat [of "resp_chunks r" "[]" 0]
  by (auto simp: response_text_def Let_def split: prod.split)

text \<open>
  C5. With a stored version marker that is not the required version (a missing marker
  included), \<open>initDatabase\<close> clears the table first, before it fetches and inserts: the
  table ends with records of the fetched set only (all of them when their keys are
  distinct), or empty when the load fails. With the required marker and a table that is
  not empty it makes no fetch and changes nothing.
\<close>

theorem initDatabase_version_gate:
  "(databaseVersion s \<noteq> Some DB_VERSION \<longrightarrow>
      (\<exists>tr. snd (snd (initDatabase parse fetched s)) = Cleared # Fetch # tr) \<and>
      (\<forall>r qs. fetched = Resolved r \<and> resp_ok r \<and> parse (response_text r) = Some qs \<longrightarrow>
         questions (fst (snd (initDatabase parse fetched s))) = snd (bulkAdd [] qs) \<and>
         set (questions (fst (snd (initDatabase parse fetched s)))) \<subseteq> set qs \<and>
         (distinct (map qid qs) \<longrightarrow>
            initDatabase parse fetched s =
              (None, \<lparr>databaseVersion = Some DB_VERSION, questions = qs\<rparr>,
               [Cleared, Fetch, BulkAdd qs, VersionSet]))) \<and>
      ((\<forall>r qs. \<not> (fetched = Resolved r \<and> resp_ok r \<and> parse (response_text r) = Some qs)) \<longrightarrow>
         questions (fst (snd (initDatabase parse fetched s))) = [] \<and>
         fst (initDatabase parse fetched s) \<noteq> None)) \<and>
   (databaseVersion s = Some DB_VERSION \<and> questions s \<noteq> [] \<longrightarrow>
      initDatabase parse fetched s = (None, s, []))"
proof (intro conjI impI allI)
  assume v: "databaseVersion s \<noteq> Some DB_VERSION"
  show "\<exists>tr. snd (snd (initDatabase parse fetched s)) = Cleared # Fetch # tr"
    using v
    by (simp add: initDatabase_def Let_def split: fetch_outcome.split option.split prod.split)
next
  fix r qs
  assume v: "databaseVersion s \<noteq> Some DB_VERSION"
    and f: "fetched = Resolved r \<and> resp_ok r \<and> parse (response_text r) = Some qs"
  show q: "questions (fst (snd (initDatabase parse fetched s))) = snd (bulkAdd [] qs)"
    using v f by (simp add: initDatabase_def Let_def split: prod.split)
  show "set (questions (fst (snd (initDatabase parse fetched s)))) \<subseteq> set qs"
    unfolding q using bulkAdd_subset [of "[]" qs] by simp
  show "initDatabase parse fetched s =
          (None, \<lparr>databaseVersion = Some DB_VERSION, questions = qs\<rparr>,
           [Cleared, Fetch, BulkAdd qs, VersionSet])"
    if "distinct (map qid qs)"
    using v f bulkAdd_distinct [OF that]
    by (simp add: initDatabase_def Let_def)
next
  assume v: "databaseVersion s \<noteq> Some DB_VERSION"
    and n: "\<forall>r qs. \<not> (fetched = Resolved r \<and> resp_ok r \<and> parse (response_text r) = Some qs)"
  show "questions (fst (snd (initDatabase parse fetched s))) = []"
    using v n
    by (auto simp: initDatabase_def Let_def split: fetch_outcome.split option.split prod.split)
  show "fst (initDatabase parse fetched s) \<noteq> None"
    using v n
    by (auto simp: initDatabase_def Let_def split: fetch_outcome.split option.split prod.split)
next
  assume "databaseVersion s = Some DB_VERSION \<and> questions s \<noteq> []"
  then show "initDatabase parse fetched s = (None, s, [])"
    by (simp add: initDatabase_def)
qed

theorem initDatabase_version_gate_witness:
  "databaseVersion ex_stale \<noteq> Some DB_VERSION \<and>
   initDatabase ex_parse (Resolved ex_response) ex_stale =
     (None, \<lparr>databaseVersion = Some DB_VERSION, questions = ex_db\<rparr>,
      [Cleared, Fetch, BulkAdd ex_db, VersionSet]) \<and>
   databaseVersion ex_current = Some DB_VERSION \<and> questions ex_current \<noteq> [] \<and>
   initDatabase ex_parse (Resolved ex_response) ex_current = (None, ex_current, [])"
proof -
  have v: "databaseVersion ex_stale \<noteq> Some DB_VERSION"
    by (simp add: ex_stale_def DB_VERSION_def)
  have c: "databaseVersion ex_current = Some DB_VERSION \<and> questions ex_current \<noteq> []"
    by (simp add: ex_current_def DB_VERSION_def)
  have f: "Resolved ex_response = Resolved ex_response \<and> resp_ok ex_response \<and>
           ex_parse (response_text ex_response) = Some ex_db"
    by (simp add: response_text_concat ex_response_def ex_parse_def)
  have d: "distinct (map qid ex_db)"
    by (simp add: ex_db_def ex_q1_def ex_q2_def blank_question_def)
  from initDatabase_version_gate [of ex_stale ex_parse "Resolved ex_response"] v f d
  have 1: "initDatabase ex_parse (Resolved ex_response) ex_stale =
     (None, \<lparr>databaseVersion = Some DB_VERSION, questions = ex_db\<rparr>,
      [Cleared, Fetch, BulkAdd ex_db, VersionSet])"
    by blast
  from initDatabase_version_gate [of ex_current ex_parse "Resolved ex_response"] c
  have 2: "initDatabase ex_parse (Resolved ex_response) ex_current = (None, ex_current, [])"
    by blast
  from v c 1 2 show ?thesis by blast
qed

subsection \<open>Dependent options\<close>

lemma keysAt_path: "keysAt (getQuestionValuePath k) q = fieldValues k q"
  by (cases k) (simp_all add: keysAt_def)

lemma fst_set_index_entries:
  "fst ` set (index_entries (Some path) tbl) = (\<Union>q \<in> set tbl. set (keysAt path q))"
  by (force simp: index_entries_def)

lemma distinct_nextunique_keys: "distinct (map fst (nextunique es))"
proof (induction es rule: nextunique.induct)
  case 1
  then show ?case by simp
next
  case (2 e es)
  have "fst e \<notin> fst ` set (nextunique (filter (\<lambda>e'. fst e' \<noteq> fst e) es))"
    unfolding fst_set_nextunique by auto
  with 2 show ?case by simp
qed

lemma uniqueKeys_distinct: "distinct (uniqueKeys_cb cb c)"
  by (simp add: uniqueKeys_cb_def uniqueKeys_def distinct_map_filter distinct_nextunique_keys)

lemma uniqueKeys_anyOf_set:
  "set (uniqueKeys_cb cb (anyOf (table_where tbl path) vals)) =
     {k \<in> (\<Union>q \<in> set tbl. set (keysAt path q)). k \<in> set vals}"
proof -
  have "set (uniqueKeys_cb cb (anyOf (table_where tbl path) vals)) =
        {k \<in> fst ` set (nextunique (index_entries (Some path) tbl)). k \<in> set vals}"
    by (auto simp: uniqueKeys_cb_def uniqueKeys_def table_where_def delivers_def)
  then show ?thesis
    by (simp only: fst_set_nextunique fst_set_index_entries)
qed

lemma uniqueKeys_anyOf_and_subset:
  "set (uniqueKeys_cb cb (and_filter p (anyOf (table_where tbl path) vals))) \<subseteq>
     {k \<in> (\<Union>q \<in> set tbl. set (keysAt path q)). k \<in> set vals}"
proof -
  have "set (uniqueKeys_cb cb (and_filter p (anyOf (table_where tbl path) vals))) \<subseteq>
        {k \<in> fst ` set (nextunique (index_entries (Some path) tbl)). k \<in> set vals}"
    by (auto simp: uniqueKeys_cb_def uniqueKeys_def table_where_def delivers_def and_filter_def)
  then show ?thesis
    by (simp only: fst_set_nextunique fst_set_index_entries)
qed

lemma js_sort_props:
  "set (js_sort xs) = set xs" "distinct (js_sort xs) = distinct xs"
  "sorted (map String_js (js_sort xs))"
  by (simp_all add: js_sort_def)

lemma populateMultiSelect_options:
  assumes "isMultiSelect st k"
  shows "displayedOptions (populateMultiSelect k opts st) k = opts"
    and "toggleBtn_disabled (filterElements (populateMultiSelect k opts st) k) =
         toggleBtn_disabled (filterElements st k)"
  using assms
  by (auto simp: isMultiSelect_def displayedOptions_def displayed_def populateMultiSelect_def
      filterElements_set_element Let_def comp_def)

lemma populateMultiSelect_other:
  "k' \<noteq> k \<Longrightarrow> filterElements (populateMultiSelect k opts st) k' = filterElements st k'"
  by (simp add: populateMultiSelect_def filterElements_set_element Let_def split: option.split)

lemma isMultiSelect_set_element:
  "isMultiSelect (set_element k' (\<lambda>e. e\<lparr>toggleBtn_disabled := b\<rparr>) st) k = isMultiSelect st k"
  by (simp add: isMultiSelect_def filterElements_set_element)

lemma isMultiSelect_populateMultiSelect:
  "isMultiSelect (populateMultiSelect k' opts st) k = isMultiSelect st k"
  by (auto simp: isMultiSelect_def populateMultiSelect_def filterElements_set_element Let_def
      split: option.split)

lemma displayedOptions_cong:
  "filterElements st' k = filterElements st k \<Longrightarrow> displayedOptions st' k = displayedOptions st k"
  by (simp add: displayedOptions_def displayed_def split: option.split)

lemma displayedOptions_cleared:
  "displayedOptions (set_element k (\<lambda>e. e\<lparr>toggleBtn_disabled := True, list_el := Some []\<rparr>) st) k = []"
  by (simp add: displayedOptions_def displayed_def filterElements_set_element)

lemma updateDependentFilters_topic:
  assumes "isMultiSelect st Topic"
  shows "displayedOptions (updateDependentFilters db st) Topic =
           (if selectedFilters st Subject = [] then []
            else js_sort (uniqueKeys_cb ''classification.topic''
                   (anyOf (table_where db ''classification.subject'') (selectedFilters st Subject))))"
    and "toggleBtn_disabled (filterElements (updateDependentFilters db st) Topic) =
           (selectedFilters st Subject = [])"
proof -
  define st1 where "st1 =
    (if length (selectedFilters st Subject) = 0
     then set_element Topic (\<lambda>e. e\<lparr>toggleBtn_disabled := True, list_el := Some []\<rparr>) st
     else populateMultiSelect Topic
            (js_sort (uniqueKeys_cb ''classification.topic''
               (anyOf (table_where db ''classification.subject'') (selectedFilters st Subject))))
            (set_element Topic (\<lambda>e. e\<lparr>toggleBtn_disabled := False\<rparr>) st))"
  have same: "filterElements (updateDependentFilters db st) Topic = filterElements st1 Topic"
    by (simp add: updateDependentFilters_def Let_def st1_def
        populateMultiSelect_other filterElements_set_element)
  have o: "displayedOptions st1 Topic =
           (if selectedFilters st Subject = [] then []
            else js_sort (uniqueKeys_cb ''classification.topic''
                   (anyOf (table_where db ''classification.subject'') (selectedFilters st Subject))))"
    using assms
    by (simp add: st1_def displayedOptions_cleared populateMultiSelect_options
        isMultiSelect_set_element)
  have t: "toggleBtn_disabled (filterElements st1 Topic) = (selectedFilters st Subject = [])"
    using assms
    by (simp add: st1_def populateMultiSelect_options isMultiSelect_set_element
        filterElements_set_element)
  show "displayedOptions (updateDependentFilters db st) Topic =
           (if selectedFilters st Subject = [] then []
            else js_sort (uniqueKeys_cb ''classification.topic''
                   (anyOf (table_where db ''classification.subject'') (selectedFilters st Subject))))"
    using o displayedOptions_cong [OF same] by simp
  show "toggleBtn_disabled (filterElements (updateDependentFilters db st) Topic) =
           (selectedFilters st Subject = [])"
    using t same by simp
qed

lemma updateDependentFilters_subTopic:
  assumes "isMultiSelect st SubTopic"
  shows "displayedOptions (updateDependentFilters db st) SubTopic =
           (if selectedFilters st Topic = [] then []
            else js_sort (uniqueKeys_cb ''classification.subTopic''
                   (and_filter (topic_includes (selectedFilters st Topic))
                      (anyOf (table_where db ''classification.subject'') (selectedFilters st Subject)))))"
    and "toggleBtn_disabled (filterElements (updateDependentFilters db st) SubTopic) =
           (selectedFilters st Topic = [])"
proof -
  define st1 where "st1 =
    (if length (selectedFilters st Subject) = 0
     then set_element Topic (\<lambda>e. e\<lparr>toggleBtn_disabled := True, list_el := Some []\<rparr>) st
     else populateMultiSelect Topic
            (js_sort (uniqueKeys_cb ''classification.topic''
               (anyOf (table_where db ''classification.subject'') (selectedFilters st Subject))))
            (set_element Topic (\<lambda>e. e\<lparr>toggleBtn_disabled := False\<rparr>) st))"
  have m: "isMultiSelect st1 SubTopic"
    using assms
    by (simp add: st1_def isMultiSelect_populateMultiSelect isMultiSelect_set_element)
      (simp add: isMultiSelect_def filterElements_set_element)
  have u: "updateDependentFilters db st =
    (if length (selectedFilters st Topic) = 0
     then set_element SubTopic (\<lambda>e. e\<lparr>toggleBtn_disabled := True, list_el := Some []\<rparr>) st1
     else populateMultiSelect SubTopic
            (js_sort (uniqueKeys_cb ''classification.subTopic''
               (and_filter (topic_includes (selectedFilters st Topic))
                  (anyOf (table_where db ''classification.subject'') (selectedFilters st Subject)))))
            (set_element SubTopic (\<lambda>e. e\<lparr>toggleBtn_disabled := False\<rparr>) st1))"
    by (simp add: updateDependentFilters_def Let_def st1_def)
  show "displayedOptions (updateDependentFilters db st) SubTopic =
           (if selectedFilters st Topic = [] then []
            else js_sort (uniqueKeys_cb ''classification.subTopic''
                   (and_filter (topic_includes (selectedFilters st Topic))
                      (anyOf (table_where db ''classification.subject'') (selectedFilters st Subject)))))"
    using m
    by (simp add: u displayedOptions_cleared populateMultiSelect_options isMultiSelect_set_element)
  show "toggleBtn_disabled (filterElements (updateDependentFilters db st) SubTopic) =
           (selectedFilters st Topic = [])"
    using m
    by (simp add: u populateMultiSelect_options isMultiSelect_set_element
        filterElements_set_element)
qed

lemma subject_keys:
  "{k \<in> (\<Union>q \<in> set db. set (keysAt ''classification.subject'' q)). k \<in> set vals} =
   {v \<in> set vals. \<exists>q \<in> set db. v \<in> set (fieldValues Subject q)}"
  using keysAt_path [of Subject] by auto

lemma relevantTopics_set:
  "set (uniqueKeys_cb cb (anyOf (table_where db ''classification.subject'') vals)) =
   {v \<in> set vals. \<exists>q \<in> set db. v \<in> set (fieldValues Subject q)}"
  by (simp only: uniqueKeys_anyOf_set subject_keys)

lemma relevantSubTopics_subset:
  "set (uniqueKeys_cb cb (and_filter p (anyOf (table_where db ''classification.subject'') vals))) \<subseteq>
   {v \<in> set vals. \<exists>q \<in> set db. v \<in> set (fieldValues Subject q)}"
  using uniqueKeys_anyOf_and_subset [of cb p db "''classification.subject''" vals]
  by (simp only: subject_keys)

text \<open>
  C4. \<open>updateDependentFilters\<close> (the topic and sub-topic controls being the page's
  multi-select lists) empties and disables the topic list when no subject is selected,
  and the sub-topic list when no topic is selected. Otherwise it does not list topics or
  sub-topics: \<open>uniqueKeys\<close> is handed a key path where it takes a callback, and lists the
  keys of the index of the \<open>where\<close> clause, the subject. The topic list is filled with
  the selected subjects that occur in the store, and the sub-topic list with some of
  them.
\<close>

theorem updateDependentFilters_lists_subjects:
  assumes "isMultiSelect st Topic" and "isMultiSelect st SubTopic"
  shows
    "(selectedFilters st Subject = [] \<longrightarrow>
        displayedOptions (updateDependentFilters db st) Topic = [] \<and>
        toggleBtn_disabled (filterElements (updateDependentFilters db st) Topic)) \<and>
     (selectedFilters st Subject \<noteq> [] \<longrightarrow>
        set (displayedOptions (updateDependentFilters db st) Topic) =
          {v \<in> set (selectedFilters st Subject). \<exists>q \<in> set db. v \<in> set (fieldValues Subject q)} \<and>
        distinct (displayedOptions (updateDependentFilters db st) Topic) \<and>
        sorted (map String_js (displayedOptions (updateDependentFilters db st) Topic)) \<and>
        \<not> toggleBtn_disabled (filterElements (updateDependentFilters db st) Topic)) \<and>
     (selectedFilters st Topic = [] \<longrightarrow>
        displayedOptions (updateDependentFilters db st) SubTopic = [] \<and>
        toggleBtn_disabled (filterElements (updateDependentFilters db st) SubTopic)) \<and>
     (selectedFilters st Topic \<noteq> [] \<longrightarrow>
        set (displayedOptions (updateDependentFilters db st) SubTopic) \<subseteq>
          {v \<in> set (selectedFilters st Subject). \<exists>q \<in> set db. v \<in> set (fieldValues Subject q)} \<and>
        distinct (displayedOptions (updateDependentFilters db st) SubTopic) \<and>
        sorted (map String_js (displayedOptions (updateDependentFilters db st) SubTopic)) \<and>
        \<not> toggleBtn_disabled (filterElements (updateDependentFilters db st) SubTopic))"
  by (simp add: updateDependentFilters_topic [OF assms(1)] updateDependentFilters_subTopic [OF assms(2)]
      js_sort_props uniqueKeys_distinct relevantTopics_set relevantSubTopics_subset
      del: fieldValues.simps)

text \<open>
  A store of three mathematics questions, on algebra (\<open>q1\<close>) and geometry (\<open>q2\<close>, and
  \<open>q3\<close> with the sub-topic ``Triangles''), with the subject ``Math'' and the topic
  ``Geometry'' selected. The specification has the topic options ``Algebra'' and
  ``Geometry'' and the sub-topic option ``Triangles''. The program shows the one topic
  option ``Math'' and no sub-topic option: the cursor of \<open>uniqueKeys\<close> visits the key
  ``Math'' once, at \<open>q1\<close>, which the filter on the topic refuses.
\<close>

theorem updateDependentFilters_lists_subjects_witness:
  "isMultiSelect ex_dep_state Topic \<and> isMultiSelect ex_dep_state SubTopic \<and>
   selectedFilters ex_dep_state Subject = [Str ''Math''] \<and>
   selectedFilters ex_dep_state Topic = [Str ''Geometry''] \<and>
   displayedOptions (updateDependentFilters ex_dep_db ex_dep_state) Topic = [Str ''Math''] \<and>
   topicsUnder ex_dep_db [Str ''Math''] = {Str ''Algebra'', Str ''Geometry''} \<and>
   \<not> toggleBtn_disabled (filterElements (updateDependentFilters ex_dep_db ex_dep_state) Topic) \<and>
   displayedOptions (updateDependentFilters ex_dep_db ex_dep_state) SubTopic = [] \<and>
   subTopicsUnder ex_dep_db [Str ''Math''] [Str ''Geometry''] = {Str ''Triangles''} \<and>
   \<not> toggleBtn_disabled (filterElements (updateDependentFilters ex_dep_db ex_dep_state) SubTopic) \<and>
   isMultiSelect initial_state Topic \<and> isMultiSelect initial_state SubTopic \<and>
   selectedFilters initial_state Subject = [] \<and>
   displayedOptions (updateDependentFilters ex_dep_db initial_state) Topic = [] \<and>
   toggleBtn_disabled (filterElements (updateDependentFilters ex_dep_db initial_state) Topic) \<and>
   displayedOptions (updateDependentFilters ex_dep_db initial_state) SubTopic = [] \<and>
   toggleBtn_disabled (filterElements (updateDependentFilters ex_dep_db initial_state) SubTopic)"
proof -
  have m: "isMultiSelect ex_dep_state Topic" "isMultiSelect ex_dep_state SubTopic"
    "isMultiSelect initial_state Topic" "isMultiSelect initial_state SubTopic"
    by (simp_all add: isMultiSelect_def ex_dep_state_def initial_state_def multiSelectElement_def)
  have s: "selectedFilters ex_dep_state Subject = [Str ''Math'']"
    "selectedFilters ex_dep_state Topic = [Str ''Geometry'']"
    "selectedFilters initial_state Subject = []" "selectedFilters initial_state Topic = []"
    by (simp_all add: ex_dep_state_def initial_state_def)
  have t: "displayedOptions (updateDependentFilters ex_dep_db ex_dep_state) Topic = [Str ''Math'']"
    by (simp add: updateDependentFilters_topic [OF m(1)] s js_sort_def store_eval ex_eval)
  have u: "displayedOptions (updateDependentFilters ex_dep_db ex_dep_state) SubTopic = []"
    by (simp add: updateDependentFilters_subTopic [OF m(2)] s js_sort_def store_eval
        topic_includes_def ex_eval)
  have tu: "topicsUnder ex_dep_db [Str ''Math''] = {Str ''Algebra'', Str ''Geometry''}"
    by (simp add: spec_eval ex_eval)
  have su: "subTopicsUnder ex_dep_db [Str ''Math''] [Str ''Geometry''] = {Str ''Triangles''}"
    by (simp add: spec_eval ex_eval)
  note a = updateDependentFilters_lists_subjects [OF m(1) m(2), of ex_dep_db]
  note b = updateDependentFilters_lists_subjects [OF m(3) m(4), of ex_dep_db]
  from a b m s t u tu su show ?thesis by simp
qed

subsection \<open>Availability\<close>












subsection \<open>The hierarchy invariant\<close>

lemma updateFilterUI_shape:
  "noSegments (updateFilterUI k c st) k' = noSegments st k'"
  "listEmpty (updateFilterUI k c st) k' = listEmpty st k'"
  by (simp_all add: updateFilterUI_def noSegments_def listEmpty_def filterElements_set_element
      Let_def split: option.split)

lemma updateAll_loop_shape:
  "noSegments (snd (updateAll_loop db ks st)) k' = noSegments st k'"
  "listEmpty (snd (updateAll_loop db ks st)) k' = listEmpty st k'"
proof (induction ks arbitrary: st)
  case Nil
  {
    case 1 show ?case by simp
  next
    case 2 show ?case by simp
  }
next
  case (Cons k ks)
  {
    case 1
    show ?case
      by (cases "countsFor db (selectedFilters st) k") (simp_all add: Cons updateFilterUI_shape)
  next
    case 2
    show ?case
      by (cases "countsFor db (selectedFilters st) k") (simp_all add: Cons updateFilterUI_shape)
  }
qed

lemma updateAll_shape:
  "noSegments (snd (updateAllFilterCountsAndAvailability db st)) k' = noSegments st k'"
  "listEmpty (snd (updateAllFilterCountsAndAvailability db st)) k' = listEmpty st k'"
  by (simp_all add: updateAllFilterCountsAndAvailability_def updateAll_loop_shape)

lemma populateMultiSelect_segments:
  "segmentedControl (filterElements (populateMultiSelect k opts st) k') =
   segmentedControl (filterElements st k')"
  by (simp add: populateMultiSelect_def filterElements_set_element Let_def split: option.split)

lemma populateSegmentedControl_noSegments:
  "noSegments (populateSegmentedControl k opts st) k' = noSegments st k'"
  by (simp add: noSegments_def populateSegmentedControl_def filterElements_set_element
      split: option.split)

lemma updateDependentFilters_noSegments:
  "noSegments (updateDependentFilters db st) k = noSegments st k"
  by (simp add: noSegments_def updateDependentFilters_def Let_def populateMultiSelect_segments
      filterElements_set_element)

lemma updateDependentFilters_empty_lists:
  "selectedFilters st Subject = [] \<Longrightarrow> listEmpty (updateDependentFilters db st) Topic"
  "selectedFilters st Topic = [] \<Longrightarrow> listEmpty (updateDependentFilters db st) SubTopic"
  by (simp_all add: listEmpty_def updateDependentFilters_def Let_def filterElements_set_element
      populateMultiSelect_def set_element_fields split: option.split)

lemma onFilterStateChange_shape:
  "noSegments (snd (onFilterStateChange db st)) k = noSegments st k"
  "listEmpty (snd (onFilterStateChange db st)) k = listEmpty (updateDependentFilters db st) k"
proof -
  let ?s = "withMasterList (toArray (toCollection db)) (updateDependentFilters db st)"
  obtain e st' where u: "updateAllFilterCountsAndAvailability db ?s = (e, st')"
    by (cases "updateAllFilterCountsAndAvailability db ?s")
  from updateAll_shape [of db ?s k] u
  have s: "noSegments st' k = noSegments ?s k" "listEmpty st' k = listEmpty ?s k" by simp_all
  have w: "noSegments ?s k = noSegments (updateDependentFilters db st) k"
    "listEmpty ?s k = listEmpty (updateDependentFilters db st) k"
    by (simp_all add: noSegments_def listEmpty_def withMasterList_fields)
  have b: "noSegments (updateActiveFiltersSummaryBar st') k = noSegments st' k"
    "listEmpty (updateActiveFiltersSummaryBar st') k = listEmpty st' k"
    by (simp_all add: noSegments_def listEmpty_def updateActiveFiltersSummaryBar_fields)
  show "noSegments (snd (onFilterStateChange db st)) k = noSegments st k"
    by (cases "allEmpty (selectedFilters st)")
      (simp_all add: onFilterStateChange_rejects onFilterStateChange_allEmpty u s w b
        updateDependentFilters_noSegments split: option.split)
  show "listEmpty (snd (onFilterStateChange db st)) k = listEmpty (updateDependentFilters db st) k"
    by (cases "allEmpty (selectedFilters st)")
      (simp_all add: onFilterStateChange_rejects onFilterStateChange_allEmpty u s w b
        split: option.split)
qed

lemma onFilterStateChange_chips:
  assumes "activeFiltersSummaryBar st = []"
  shows "activeFiltersSummaryBar (snd (onFilterStateChange db st)) = []"
proof -
  let ?s = "withMasterList (toArray (toCollection db)) (updateDependentFilters db st)"
  obtain e st' where u: "updateAllFilterCountsAndAvailability db ?s = (e, st')"
    by (cases "updateAllFilterCountsAndAvailability db ?s")
  from dom_only_updateAll [of ?s db] u have d: "dom_only ?s st'" by simp
  have c: "activeFiltersSummaryBar st' = []"
    using assms by (simp add: dom_only_fields [OF d] withMasterList_fields updateDependentFilters_fields)
  have a: "allEmpty (selectedFilters st') = allEmpty (selectedFilters st)"
    by (simp add: dom_only_fields [OF d] withMasterList_fields updateDependentFilters_fields)
  show ?thesis
    using assms
    by (cases "allEmpty (selectedFilters st)")
      (simp_all add: onFilterStateChange_rejects onFilterStateChange_allEmpty u c a
        updateActiveFiltersSummaryBar_allEmpty updateDependentFilters_fields split: option.split)
qed

lemma page_inv_onFilterStateChange:
  assumes "hierarchy_ok (selectedFilters st)" "noSegments st Topic" "noSegments st SubTopic"
    and "activeFiltersSummaryBar st = []"
  shows "page_inv (snd (onFilterStateChange db st))"
  using assms
  by (simp add: page_inv_def onFilterStateChange_fields onFilterStateChange_shape
      updateDependentFilters_empty_lists onFilterStateChange_chips)

lemma page_inv_cong:
  assumes "page_inv st" "selectedFilters st' Subject = selectedFilters st Subject"
    "selectedFilters st' Topic = selectedFilters st Topic"
    "selectedFilters st' SubTopic = selectedFilters st SubTopic"
    "filterElements st' = filterElements st"
    "activeFiltersSummaryBar st' = activeFiltersSummaryBar st"
  shows "page_inv st'"
  using assms by (simp add: page_inv_def noSegments_def listEmpty_def hierarchy_ok_def)

lemma handleSelectionChange_page_inv:
  assumes h: "hierarchy_ok (selectedFilters st)"
    and n: "noSegments st Topic" "noSegments st SubTopic"
    and c: "activeFiltersSummaryBar st = []"
    and g1: "k = Topic \<Longrightarrow> v \<in> set (selectedFilters st Topic) \<or> selectedFilters st Subject \<noteq> []"
    and g2: "k = SubTopic \<Longrightarrow> v \<in> set (selectedFilters st SubTopic) \<or> selectedFilters st Topic \<noteq> []"
  shows "page_inv (snd (handleSelectionChange k v db st))"
proof -
  define fs where "fs = selectedFilters (snd (handleSelectionChange k v db st))"
  have fs: "fs = (let fs = (selectedFilters st)
            (k := (if v \<in> set (selectedFilters st k) then remove1 v (selectedFilters st k)
                   else selectedFilters st k @ [v]))
      in if k = Subject then fs(Topic := [], SubTopic := [])
         else if k = Topic then fs(SubTopic := [])
         else fs)"
    by (simp add: fs_def selectedFilters_handleSelectionChange)
  have hk: "hierarchy_ok fs"
  proof (cases k)
    case Topic
    with h g1 show ?thesis by (auto simp: fs hierarchy_ok_def Let_def)
  next
    case SubTopic
    with h g2 show ?thesis by (auto simp: fs hierarchy_ok_def Let_def)
  qed (use h in \<open>auto simp: fs hierarchy_ok_def Let_def\<close>)
  have "handleSelectionChange k v db st = onFilterStateChange db (st\<lparr>selectedFilters := fs\<rparr>)"
    by (simp add: fs handleSelectionChange_def Let_def)
  moreover have "page_inv (snd (onFilterStateChange db (st\<lparr>selectedFilters := fs\<rparr>)))"
    using hk n c by (intro page_inv_onFilterStateChange) (simp_all add: noSegments_def)
  ultimately show ?thesis by simp
qed

lemma uncheck_all_segments: "segmentedControl (uncheck_all e) = segmentedControl e"
  by (simp add: uncheck_all_def split: option.split)

lemma flip_checked_segments: "segmentedControl (flip_checked i e) = segmentedControl e"
  by (simp add: flip_checked_def split: option.split)

lemma uncheck_fold_segments:
  "segmentedControl (filterElements (foldl (\<lambda>st k. set_element k uncheck_all st) st ks) k') =
   segmentedControl (filterElements st k')"
  by (induction ks rule: rev_induct)
    (auto simp: filterElements_set_element uncheck_all_segments)

lemma resetFilters_page_inv:
  assumes "noSegments st Topic" "noSegments st SubTopic" "activeFiltersSummaryBar st = []"
  shows "page_inv (snd (resetFilters db st))"
  unfolding resetFilters_def Let_def
  using assms
  by (intro page_inv_onFilterStateChange)
    (simp_all add: uncheck_fold_fields hierarchy_ok_def noSegments_def uncheck_fold_segments)

lemma startFilteredQuiz_fields:
  "selectedFilters (startFilteredQuiz st) = selectedFilters st"
  "filterElements (startFilteredQuiz st) = filterElements st"
  "activeFiltersSummaryBar (startFilteredQuiz st) = activeFiltersSummaryBar st"
  "filteredQuestionsMasterList (startFilteredQuiz st) = filteredQuestionsMasterList st"
  by (simp_all add: startFilteredQuiz_def)

lemma startFilteredQuiz_page_inv: "page_inv st \<Longrightarrow> page_inv (startFilteredQuiz st)"
  by (rule page_inv_cong) (simp_all add: startFilteredQuiz_fields)

lemma apply_preset_selected:
  "selectedFilters (apply_preset p st) Subject = selectedFilters st Subject"
  "selectedFilters (apply_preset p st) Topic = selectedFilters st Topic"
  "selectedFilters (apply_preset p st) SubTopic = selectedFilters st SubTopic"
  by (simp_all add: apply_preset_def)

lemma handleQuickStart_page_inv:
  assumes n: "noSegments st Topic" "noSegments st SubTopic" "activeFiltersSummaryBar st = []"
  shows "page_inv (snd (handleQuickStart rnd p db st))"
proof -
  obtain e st1 where r: "resetFilters db st = (e, st1)" by (cases "resetFilters db st")
  from resetFilters_page_inv [OF n, of db] r have i1: "page_inv st1" by simp
  let ?st2 = "apply_preset p st1"
  have i2: "page_inv ?st2"
    using i1 by (rule page_inv_cong) (simp_all add: apply_preset_selected apply_preset_fields)
  show ?thesis
  proof (cases e)
    case (Some x)
    with r i1 show ?thesis by (simp add: handleQuickStart_def)
  next
    case None
    show ?thesis
    proof (cases "allEmpty (selectedFilters ?st2)")
      case False
      with r None i2 show ?thesis
        by (simp add: handleQuickStart_def Let_def applyFilters_rejects)
    next
      case True
      let ?qs = "shuffleArray rnd (toArray (toCollection db))"
      let ?st4 = "updateQuestionCount
        (withMasterList (toArray (toCollection db)) ?st2\<lparr>filteredQuestionsMasterList := take 25 ?qs\<rparr>)"
      have f4: "selectedFilters ?st4 = selectedFilters ?st2" "filterElements ?st4 = filterElements ?st2"
        "activeFiltersSummaryBar ?st4 = activeFiltersSummaryBar ?st2"
        by (simp_all add: updateQuestionCount_def Let_def withMasterList_fields)
      have i4: "page_inv ?st4"
        using i2 by (rule page_inv_cong) (simp_all add: f4)
      have h: "handleQuickStart rnd p db st =
        (if length (filteredQuestionsMasterList ?st4) = 0
         then resetFilters db (?st4\<lparr>events := events ?st4 @ [quickStart_warning]\<rparr>)
         else (None, startFilteredQuiz ?st4))"
        by (simp add: handleQuickStart_def r None Let_def applyFilters_allEmpty [OF True])
      have w: "page_inv (snd (resetFilters db (?st4\<lparr>events := events ?st4 @ [quickStart_warning]\<rparr>)))"
        using i4 by (intro resetFilters_page_inv) (simp_all add: page_inv_def noSegments_def)
      show ?thesis
        unfolding h using w startFilteredQuiz_page_inv [OF i4] by (simp split: if_split)
    qed
  qed
qed

subsection \<open>Every reachable state satisfies the invariant\<close>

lemma populateFilterControls_noSegments:
  "noSegments (populateFilterControls db st) Topic = noSegments st Topic"
  "noSegments (populateFilterControls db st) SubTopic = noSegments st SubTopic"
  by (simp_all add: populateFilterControls_def Let_def noSegments_def populateMultiSelect_segments
      populateSegmentedControl_noSegments [unfolded noSegments_def] filterElements_set_element)

lemma page_inv_start: "page_inv (snd (initializeFilterDataSource db initial_state))"
  unfolding initializeFilterDataSource_def
  by (intro page_inv_onFilterStateChange)
    (simp_all add: populateFilterControls_fields populateFilterControls_noSegments
      hierarchy_ok_def, simp_all add: initial_state_def noSegments_def multiSelectElement_def)

lemma page_inv_fire:
  assumes inv: "page_inv st" and en: "enabled st ev"
  shows "page_inv (fire rnd db ev st)"
proof (cases ev)
  case (ClickCheckbox k i)
  with en obtain items where items: "list_el (filterElements st k) = Some items" "i < length items"
    by (auto split: option.splits)
  then have ne: "\<not> listEmpty st k" by (auto simp: listEmpty_def)
  let ?st0 = "set_element k (flip_checked i) st"
  have "page_inv (snd (handleSelectionChange k (item_opt (items ! i)) db ?st0))"
  proof (rule handleSelectionChange_page_inv)
    show "hierarchy_ok (selectedFilters ?st0)"
      using inv by (simp add: page_inv_def set_element_fields)
    show "noSegments ?st0 Topic" "noSegments ?st0 SubTopic"
      using inv by (auto simp: page_inv_def noSegments_def filterElements_set_element flip_checked_segments)
    show "activeFiltersSummaryBar ?st0 = []"
      using inv by (simp add: page_inv_def set_element_fields)
    show "item_opt (items ! i) \<in> set (selectedFilters ?st0 Topic) \<or> selectedFilters ?st0 Subject \<noteq> []"
      if "k = Topic"
      using inv ne that by (auto simp: page_inv_def set_element_fields)
    show "item_opt (items ! i) \<in> set (selectedFilters ?st0 SubTopic) \<or> selectedFilters ?st0 Topic \<noteq> []"
      if "k = SubTopic"
      using inv ne that by (auto simp: page_inv_def set_element_fields)
  qed
  with ClickCheckbox items show ?thesis by simp
next
  case (ClickSegment k i)
  with en obtain btns where btns: "segmentedControl (filterElements st k) = Some btns"
    by (auto split: option.splits)
  with inv have k: "k \<noteq> Topic" "k \<noteq> SubTopic"
    by (auto simp: page_inv_def noSegments_def)
  have "page_inv (snd (handleSelectionChange k (btn_opt (btns ! i)) db st))"
    using inv k by (intro handleSelectionChange_page_inv) (simp_all add: page_inv_def)
  with ClickSegment btns show ?thesis by simp
next
  case (CloseChip i)
  with en inv show ?thesis by (simp add: page_inv_def)
next
  case ClickReset
  from inv have "noSegments st Topic" "noSegments st SubTopic" "activeFiltersSummaryBar st = []"
    by (simp_all add: page_inv_def)
  with ClickReset show ?thesis by (simp add: resetFilters_page_inv)
next
  case (ClickQuickStart p)
  from inv have "noSegments st Topic" "noSegments st SubTopic" "activeFiltersSummaryBar st = []"
    by (simp_all add: page_inv_def)
  with ClickQuickStart show ?thesis by (simp add: handleQuickStart_page_inv)
next
  case ClickStartQuiz
  with inv show ?thesis by (simp add: startFilteredQuiz_page_inv)
qed

lemma reachable_page_inv: "reachable db st \<Longrightarrow> page_inv st"
  by (induction rule: reachable.induct) (simp_all add: page_inv_start page_inv_fire)

text \<open>
  C10 (as amended). In every Filter State that the page reaches from its start through
  the handlers of its controls (a click on an enabled checkbox, on a segmented button or
  on the close button of a chip, reset, quick start, start quiz), each operation having
  settled before the next event, a non-empty topic selection comes with a non-empty
  subject selection and a non-empty sub-topic selection with a non-empty topic selection.
\<close>

theorem reachable_hierarchy:
  "reachable db st \<Longrightarrow>
     (selectedFilters st Topic \<noteq> [] \<longrightarrow> selectedFilters st Subject \<noteq> []) \<and>
     (selectedFilters st SubTopic \<noteq> [] \<longrightarrow> selectedFilters st Topic \<noteq> [])"
  using reachable_page_inv [of db st] by (simp add: page_inv_def hierarchy_ok_def)

lemma r0_eq: "ex_r0 = snd (onFilterStateChange ex_db ex_page)"
  by (simp add: ex_r0_def initializeFilterDataSource_def ex_page_def)

lemma r0_rejected:
  "ex_r0 = withMasterList (toArray (toCollection ex_db)) (updateDependentFilters ex_db ex_page)"
  by (simp add: r0_eq onFilterStateChange_allEmpty ex_page_selected allEmpty_all
      updateAll_rejects [OF ex_db_ids])

lemma updateDependentFilters_other:
  "k \<noteq> Topic \<Longrightarrow> k \<noteq> SubTopic \<Longrightarrow>
   filterElements (updateDependentFilters db st) k = filterElements st k"
  by (simp add: updateDependentFilters_def Let_def populateMultiSelect_other
      filterElements_set_element)

lemma r0_subject:
  "list_el (filterElements ex_r0 Subject) =
     Some [\<lparr>item_opt = Str ''Math'', item_checked = False, item_disabled = False, item_count = None\<rparr>]"
  by (simp add: r0_rejected withMasterList_fields updateDependentFilters_other ex_page_subject)

lemma r0_selected: "selectedFilters ex_r0 = (\<lambda>k. [])"
  by (simp add: r0_eq onFilterStateChange_fields ex_page_selected)

lemma r0_enabled: "enabled ex_r0 (ClickCheckbox Subject 0)"
  by (simp add: r0_subject)

lemma r1_eq:
  "ex_r1 = snd (handleSelectionChange Subject (Str ''Math'') ex_db
             (set_element Subject (flip_checked 0) ex_r0))"
  by (simp add: ex_r1_def r0_subject)

lemma r1_selected:
  "selectedFilters ex_r1 = (\<lambda>k. [])(Subject := [Str ''Math''])"
  by (simp add: r1_eq selectedFilters_handleSelectionChange set_element_fields r0_selected
      Let_def fun_eq_iff)

lemma r0_topic: "list_el (filterElements ex_r0 Topic) = Some []"
  by (simp add: r0_rejected withMasterList_fields updateDependentFilters_def ex_page_selected
      filterElements_set_element Let_def)

lemma r1_topic:
  "list_el (filterElements ex_r1 Topic) =
     Some [\<lparr>item_opt = Str ''Math'', item_checked = False, item_disabled = False, item_count = None\<rparr>]"
proof -
  let ?fs = "(\<lambda>k. [])(Subject := [Str ''Math''], Topic := [], SubTopic := [])"
  let ?s = "set_element Subject (flip_checked 0) ex_r0\<lparr>selectedFilters := ?fs\<rparr>"
  have ne: "\<not> allEmpty (selectedFilters ?s)" by (simp add: allEmpty_iff)
  have e: "ex_r1 = updateDependentFilters ex_db ?s"
    unfolding r1_eq handleSelectionChange_def
    by (simp add: Let_def set_element_fields r0_selected onFilterStateChange_rejects [OF ne])
  show ?thesis
    unfolding e
    by (simp add: updateDependentFilters_def Let_def populateMultiSelect_def r0_topic
        filterElements_set_element set_element_fields js_sort_def store_eval ex_eval)
qed

lemma r1_enabled: "enabled ex_r1 (ClickCheckbox Topic 0)"
  by (simp add: r1_topic)

lemma r2_selected:
  "selectedFilters ex_r2 Topic = [Str ''Math'']" "selectedFilters ex_r2 Subject = [Str ''Math'']"
  "selectedFilters ex_r2 SubTopic = []"
  by (simp_all add: ex_r2_def r1_topic selectedFilters_handleSelectionChange set_element_fields
      r1_selected Let_def)

lemma ex_r2_reachable: "reachable ex_db ex_r2"
  unfolding ex_r2_def ex_r1_def ex_r0_def
  by (intro reachable.step reachable.start r0_enabled [unfolded ex_r0_def]
      r1_enabled [unfolded ex_r1_def ex_r0_def])

text \<open>
  On the example store the subject ``Math'' is ticked and then the one option of the
  topic list, which is ``Math'' again.
\<close>

theorem reachable_hierarchy_witness:
  "reachable ex_db ex_r2 \<and> selectedFilters ex_r2 Topic = [Str ''Math''] \<and>
   selectedFilters ex_r2 Subject = [Str ''Math''] \<and> selectedFilters ex_r2 SubTopic = []"
  using reachable_hierarchy [OF ex_r2_reachable] ex_r2_reachable r2_selected
  by simp

text \<open>
  The claim as stated fails: the selection change is an operation of its own, and called
  with the key topic on the page as it is after loading, no subject selected, it selects
  the topic.
\<close>

theorem reachable_hierarchy_counterexample:
  "selectedFilters ex_r0 Subject = [] \<and> selectedFilters ex_r0 Topic = [] \<and>
   selectedFilters ex_r0 SubTopic = [] \<and>
   selectedFilters (snd (handleSelectionChange Topic (Str ''Algebra'') ex_db ex_r0)) Topic =
     [Str ''Algebra''] \<and>
   selectedFilters (snd (handleSelectionChange Topic (Str ''Algebra'') ex_db ex_r0)) Subject = []"
  by (simp add: selectedFilters_handleSelectionChange r0_selected Let_def)

end
